theory Spec2Isabelle
  imports Main "HOL-Library.Sublist" "HOL-Library.AList"
begin

section \<open>JavaScript values, exceptions and effects\<close>

text \<open>
  Tool arguments, backend responses and decoded oracle output are untyped data in the
  source (\<^verbatim>\<open>Record<string, any>\<close>, \<^verbatim>\<open>any\<close>). They are modelled by one datatype of
  JSON-like values, extended with \<^verbatim>\<open>undefined\<close>. Numbers are integers (the source only
  passes them on, tests them for truthiness and reads them from decimal digits); objects
  are association lists read with \<open>map_of\<close>. A string is a list of characters with codes
  below 256, read as the code units U+0000 to U+00FF; the case and white-space functions
  below are those of JavaScript on that range.
\<close>

datatype jsval =
    JUndefined
  | JNull
  | JBool bool
  | JNum int
  | JStr string
  | JArr "jsval list"
  | JObj "(string \<times> jsval) list"

text \<open>A thrown value: a \<^verbatim>\<open>TypeError\<close> of the runtime or an \<^verbatim>\<open>Error\<close> made by
  \<^verbatim>\<open>new Error(msg)\<close> (also the rejection of a backend or oracle promise). Both carry
  the text read back by \<^verbatim>\<open>e.message\<close>.\<close>

datatype error = TypeError string | Error string

fun message :: "error \<Rightarrow> string" where
  "message (TypeError m) = m"
| "message (Error m) = m"

fun truthy :: "jsval \<Rightarrow> bool" where
  "truthy JUndefined = False"
| "truthy JNull = False"
| "truthy (JBool b) = b"
| "truthy (JNum n) = (n \<noteq> 0)"
| "truthy (JStr s) = (s \<noteq> [])"
| "truthy (JArr xs) = True"
| "truthy (JObj kvs) = True"

fun nullish :: "jsval \<Rightarrow> bool" where
  "nullish JUndefined = True"
| "nullish JNull = True"
| "nullish v = False"

text \<open>\<^verbatim>\<open>a ?? b\<close> and \<^verbatim>\<open>a || b\<close>.\<close>

definition orElse :: "jsval \<Rightarrow> jsval \<Rightarrow> jsval" where
  "orElse a b = (if nullish a then b else a)"

definition orFalsy :: "jsval \<Rightarrow> jsval \<Rightarrow> jsval" where
  "orFalsy a b = (if truthy a then a else b)"

text \<open>Reading a named property of a value that is neither \<^verbatim>\<open>null\<close> nor
  \<^verbatim>\<open>undefined\<close>. None of the names the source reads is a built-in property of a
  string, number, boolean or array, except \<^verbatim>\<open>length\<close>, which has its own function.\<close>

fun readProp :: "jsval \<Rightarrow> string \<Rightarrow> jsval" where
  "readProp (JObj kvs) k = (case map_of kvs k of Some v \<Rightarrow> v | None \<Rightarrow> JUndefined)"
| "readProp v k = JUndefined"

text \<open>\<^verbatim>\<open>v.k\<close> raises on \<^verbatim>\<open>null\<close> and \<^verbatim>\<open>undefined\<close>; \<^verbatim>\<open>v?.k\<close> yields
  \<^verbatim>\<open>undefined\<close> there.\<close>

definition getProp :: "jsval \<Rightarrow> string \<Rightarrow> error + jsval" where
  "getProp v k =
     (if nullish v then Inl (TypeError (''Cannot read properties of undefined (reading '' @ k @ '')''))
      else Inr (readProp v k))"

definition optProp :: "jsval \<Rightarrow> string \<Rightarrow> jsval" where
  "optProp v k = (if nullish v then JUndefined else readProp v k)"

text \<open>\<^verbatim>\<open>v.k = x\<close> in strict-mode code: the receiver must be an object.\<close>

fun setProp :: "jsval \<Rightarrow> string \<Rightarrow> jsval \<Rightarrow> error + jsval" where
  "setProp (JObj kvs) k x = Inr (JObj (AList.update k x kvs))"
| "setProp v k x = Inl (TypeError (''Cannot set properties (setting '' @ k @ '')''))"

fun jsLength :: "jsval \<Rightarrow> jsval" where
  "jsLength (JArr xs) = JNum (int (length xs))"
| "jsLength (JStr s) = JNum (int (length s))"
| "jsLength v = readProp v ''length''"

fun isArray :: "jsval \<Rightarrow> bool" where
  "isArray (JArr xs) = True"
| "isArray v = False"

text \<open>\<^verbatim>\<open>typeof v === "object"\<close> (true of \<^verbatim>\<open>null\<close> and of arrays) and
  \<^verbatim>\<open>typeof v === "string"\<close>.\<close>

fun typeofObject :: "jsval \<Rightarrow> bool" where
  "typeofObject JNull = True"
| "typeofObject (JArr xs) = True"
| "typeofObject (JObj kvs) = True"
| "typeofObject v = False"

fun typeofString :: "jsval \<Rightarrow> bool" where
  "typeofString (JStr s) = True"
| "typeofString v = False"

text \<open>Decimal digits of a natural number, and \<^verbatim>\<open>String(v)\<close> as used by template literals.\<close>

fun digitChar :: "nat \<Rightarrow> char" where
  "digitChar n = char_of (48 + n)"

fun showNat :: "nat \<Rightarrow> string" where
  "showNat n = (if n < 10 then [digitChar n] else showNat (n div 10) @ [digitChar (n mod 10)])"

definition showInt :: "int \<Rightarrow> string" where
  "showInt i = (if i < 0 then CHR ''-'' # showNat (nat (- i)) else showNat (nat i))"

fun joinWith :: "string \<Rightarrow> string list \<Rightarrow> string" where
  "joinWith sep [] = []"
| "joinWith sep [x] = x"
| "joinWith sep (x # y # ys) = x @ sep @ joinWith sep (y # ys)"

fun toStringJS :: "jsval \<Rightarrow> string" where
  "toStringJS JUndefined = ''undefined''"
| "toStringJS JNull = ''null''"
| "toStringJS (JBool b) = (if b then ''true'' else ''false'')"
| "toStringJS (JNum n) = showInt n"
| "toStringJS (JStr s) = s"
| "toStringJS (JArr xs) = joinWith '','' (map (\<lambda>x. if nullish x then [] else toStringJS x) xs)"
| "toStringJS (JObj kvs) = ''[object Object]''"

text \<open>\<^verbatim>\<open>String.prototype.toLowerCase\<close>, \<^verbatim>\<open>startsWith\<close>, \<^verbatim>\<open>includes\<close> and
  \<^verbatim>\<open>trim\<close>.\<close>

definition lowerChar :: "char \<Rightarrow> char" where
  "lowerChar c =
     (let n = of_char c :: nat
      in if (65 \<le> n \<and> n \<le> 90) \<or> (192 \<le> n \<and> n \<le> 222 \<and> n \<noteq> 215) then char_of (n + 32) else c)"

definition toLowerCase :: "string \<Rightarrow> string" where
  "toLowerCase s = map lowerChar s"

fun startsWith :: "string \<Rightarrow> string \<Rightarrow> bool" where
  "startsWith s [] = True"
| "startsWith [] (p # ps) = False"
| "startsWith (c # cs) (p # ps) = (c = p \<and> startsWith cs ps)"

fun includesJS :: "string \<Rightarrow> string \<Rightarrow> bool" where
  "includesJS [] sub = (sub = [])"
| "includesJS (c # cs) sub = (startsWith (c # cs) sub \<or> includesJS cs sub)"

definition isSpace :: "char \<Rightarrow> bool" where
  "isSpace c = (c \<in> set [CHR '' '', CHR 0x09, CHR 0x0A, CHR 0x0B, CHR 0x0C, CHR 0x0D, CHR 0xA0])"

definition trim :: "string \<Rightarrow> string" where
  "trim s = rev (dropWhile isSpace (rev (dropWhile isSpace s)))"

text \<open>Results of pure code that may throw, and computations that also change the world.\<close>

definition bindR :: "error + 'a \<Rightarrow> ('a \<Rightarrow> error + 'b) \<Rightarrow> error + 'b" where
  "bindR m f = (case m of Inl e \<Rightarrow> Inl e | Inr x \<Rightarrow> f x)"

fun mapR :: "('a \<Rightarrow> error + 'b) \<Rightarrow> 'a list \<Rightarrow> error + 'b list" where
  "mapR f [] = Inr []"
| "mapR f (x # xs) = bindR (f x) (\<lambda>y. bindR (mapR f xs) (\<lambda>ys. Inr (y # ys)))"

text \<open>\<^verbatim>\<open>v.map(f)\<close> on an untyped value: only an array has \<^verbatim>\<open>map\<close>.\<close>

definition arrayMap :: "(jsval \<Rightarrow> error + jsval) \<Rightarrow> jsval \<Rightarrow> error + jsval list" where
  "arrayMap f v =
     (case v of
        JArr xs \<Rightarrow> mapR f xs
      | JUndefined \<Rightarrow> Inl (TypeError ''Cannot read properties of undefined (reading map)'')
      | JNull \<Rightarrow> Inl (TypeError ''Cannot read properties of null (reading map)'')
      | _ \<Rightarrow> Inl (TypeError ''map is not a function''))"

type_synonym ('s, 'a) io = "'s \<Rightarrow> (error + 'a) \<times> 's"

definition retE :: "'a \<Rightarrow> ('s, 'a) io" where
  "retE x = (\<lambda>s. (Inr x, s))"

definition throwE :: "error \<Rightarrow> ('s, 'a) io" where
  "throwE e = (\<lambda>s. (Inl e, s))"

definition liftE :: "error + 'a \<Rightarrow> ('s, 'a) io" where
  "liftE r = (\<lambda>s. (r, s))"

definition bindE :: "('s, 'a) io \<Rightarrow> ('a \<Rightarrow> ('s, 'b) io) \<Rightarrow> ('s, 'b) io" where
  "bindE m f = (\<lambda>s. case m s of (Inl e, s') \<Rightarrow> (Inl e, s') | (Inr x, s') \<Rightarrow> f x s')"


section \<open>Data model\<close>

text \<open>\<^verbatim>\<open>ToolCall\<close> and \<^verbatim>\<open>ToolResult\<close> of \<^verbatim>\<open>kubernetes.ts\<close>. The tool name is typed
  \<^verbatim>\<open>ToolName\<close> there, but plans are decoded from oracle text without validation, so at
  run time it is any string.\<close>

record ToolCall =
  tool :: string
  args :: jsval

record ToolResult = ToolCall +
  ok :: bool
  result :: jsval

text \<open>\<^verbatim>\<open>Plan\<close> and \<^verbatim>\<open>PendingAction\<close> of \<^verbatim>\<open>extension.ts\<close>. An element of a result
  history is \<open>None\<close> where \<^verbatim>\<open>executeTool\<close> returned \<^verbatim>\<open>undefined\<close>.\<close>

record Plan =
  summary :: string
  toolCalls :: "ToolCall list"
  isDone :: bool

record PendingAction =
  originalUserText :: string
  plan :: Plan
  pendingToolCalls :: "ToolCall list"
  priorResults :: "ToolResult option list"

text \<open>The methods of the cluster client that \<^verbatim>\<open>executeTool\<close> calls. An invocation is a
  method with its positional arguments; the backend answers it with a response object or
  a rejection, and may change the cluster.\<close>

datatype api =
    ListNamespace | ListNamespacedPod | ListNamespacedEvent | ListNamespacedDeployment
  | ListNamespacedService | ReadNamespacedService | ListNamespacedConfigMap
  | ReadNamespacedConfigMap | ListNamespacedCustomObject | GetNamespacedCustomObject
  | ReadNamespace | CreateNamespace | CreateNamespacedPod | CreateNamespacedDeployment
  | PatchNamespacedDeployment | CreateNamespacedCustomObject | PatchNamespacedCustomObject
  | CreateNamespacedService | CreateNamespacedConfigMap | ReplaceNamespacedConfigMap
  | ReplaceNamespacedService | ReadNamespacedDeployment | ReplaceNamespacedDeployment
  | DeleteNamespacedDeployment

type_synonym invocation = "api \<times> jsval list"

type_synonym 'c backend = "invocation \<Rightarrow> 'c \<Rightarrow> (error + jsval) \<times> 'c"

text \<open>What is written to the chat response stream. The texts of the source are kept as
  constructors: the help text, \<^verbatim>\<open>Confirmed. Executing changes\<close>,
  \<^verbatim>\<open>Cancelled. No changes were made.\<close>, \<^verbatim>\<open>Failed to plan request: msg\<close>, the
  \<^verbatim>\<open>Planned changes\<close> prompt built from the plan summary and the mutating calls, a
  button bound to a command, \<^verbatim>\<open>Reached maximum iterations (10). Stopping.\<close>, a
  chunk of the formatter's narrative, and \<^verbatim>\<open>Failed to load kubeconfig: msg\<close>.\<close>

datatype streamed =
    HelpText
  | ConfirmedNotice
  | CancelledNotice
  | FailedToPlan string
  | PlannedChanges string "ToolCall list"
  | Button string
  | MaxIterationsNotice
  | Chunk string
  | FailedKubeconfig string

text \<open>An answer of the language-model API to one use of it: \<^verbatim>\<open>vscode.lm\<close> is missing;
  \<^verbatim>\<open>selectChatModels\<close> yields \<^verbatim>\<open>undefined\<close>; it yields an empty array; the request is
  rejected; or the response text arrives as a finite sequence of chunks.\<close>

datatype lmReply =
    LmMissing
  | ModelsUndefined
  | NoModel
  | RequestFails string
  | Chunks "string list"

text \<open>The world: the cluster behind the backend, the log of backend invocations, the
  session map \<^verbatim>\<open>pendingBySession\<close>, the response stream, and two counters (uses of the
  language-model API, which index the oracle's answers, and calls of the planner).\<close>

record 'c world =
  cluster :: 'c
  invoked :: "invocation list"
  pendingBySession :: "string \<Rightarrow> PendingAction option"
  stream :: "streamed list"
  lmUses :: nat
  planCalls :: nat

section \<open>Tool classifier\<close>

definition isMutating :: "string \<Rightarrow> bool" where
  "isMutating t =
     (t = ''createNamespace'' \<or>
      t = ''createPod'' \<or>
      t = ''createDeployment'' \<or>
      t = ''updateDeployment'' \<or>
      t = ''updateDeploymentImage'' \<or>
      t = ''createIstioObject'' \<or>
      t = ''updateIstioObject'' \<or>
      t = ''createConfigMap'' \<or>
      t = ''updateConfigMap'' \<or>
      t = ''createService'' \<or>
      t = ''updateService'' \<or>
      t = ''deleteDeployment'' \<or>
      t = ''scaleDeployment'')"

section \<open>Tool execution dispatch\<close>

text \<open>A call of a client method: the invocation is appended to the log, whether the
  backend answers or rejects.\<close>

definition invoke :: "'c backend \<Rightarrow> api \<Rightarrow> jsval list \<Rightarrow> ('c world, jsval) io" where
  "invoke be a xs =
     (\<lambda>w. case be (a, xs) (cluster w) of
             (r, c') \<Rightarrow> (r, w\<lparr>cluster := c', invoked := invoked w @ [(a, xs)]\<rparr>))"

text \<open>\<^verbatim>\<open>const { a, b } = call.args\<close> raises when \<^verbatim>\<open>call.args\<close> is \<^verbatim>\<open>null\<close> or
  \<^verbatim>\<open>undefined\<close>.\<close>

definition destructure :: "jsval \<Rightarrow> error + jsval" where
  "destructure v =
     (if nullish v then Inl (TypeError ''Cannot destructure property of call.args as it is undefined'')
      else Inr v)"

text \<open>\<^verbatim>\<open>summarizeK8sList\<close> only shapes the payload of a successful list call; it is a
  parameter here, and may throw like any code inside the \<^verbatim>\<open>try\<close> block.\<close>

type_synonym summarizer = "jsval list \<Rightarrow> jsval \<Rightarrow> error + jsval list"

definition plainResult :: "ToolCall \<Rightarrow> jsval \<Rightarrow> ToolResult" where
  "plainResult call res = \<lparr>tool = tool call, args = args call, ok = True, result = res\<rparr>"

text \<open>\<^verbatim>\<open>ok(call, result, options)\<close>; the options, when given, are
  \<^verbatim>\<open>{ summarizeList: true, kindHint }\<close>.\<close>

definition okResult :: "summarizer \<Rightarrow> ToolCall \<Rightarrow> jsval \<Rightarrow> jsval option \<Rightarrow> error + ToolResult" where
  "okResult summ call res options =
     (case options of
        None \<Rightarrow> Inr (plainResult call res)
      | Some kindHint \<Rightarrow>
          (case (truthy res, readProp res ''items'') of
             (True, JArr xs) \<Rightarrow>
               (let m = readProp res ''metadata'';
                    continueToken = orElse (optProp m ''continue'') (optProp m ''_continue'')
                in bindR (summ xs kindHint)
                     (\<lambda>items. Inr (plainResult call
                        (JObj [(''items'', JArr items), (''continueToken'', continueToken)]))))
           | _ \<Rightarrow> Inr (plainResult call res)))"

text \<open>\<^verbatim>\<open>{ name: res.body.metadata?.name }\<close>.\<close>

definition nameOfBody :: "jsval \<Rightarrow> error + jsval" where
  "nameOfBody res =
     bindR (getProp res ''body'') (\<lambda>body.
     bindR (getProp body ''metadata'') (\<lambda>m.
     Inr (JObj [(''name'', optProp m ''name'')])))"

definition getIstioResource :: "jsval \<Rightarrow> error + (string \<times> string \<times> string)" where
  "getIstioResource kind =
     (let normalized = toLowerCase (toStringJS (orFalsy kind (JStr [])))
      in if normalized = ''virtualservice'' then Inr (''networking.istio.io'', ''v1beta1'', ''virtualservices'')
         else if normalized = ''destinationrule'' then Inr (''networking.istio.io'', ''v1beta1'', ''destinationrules'')
         else if normalized = ''gateway'' then Inr (''networking.istio.io'', ''v1beta1'', ''gateways'')
         else if normalized = ''serviceentry'' then Inr (''networking.istio.io'', ''v1beta1'', ''serviceentries'')
         else if normalized = ''authorizationpolicy'' then Inr (''security.istio.io'', ''v1beta1'', ''authorizationpolicies'')
         else if normalized = ''peerauthentication'' then Inr (''security.istio.io'', ''v1beta1'', ''peerauthentications'')
         else if normalized = ''requestauthentication'' then Inr (''security.istio.io'', ''v1beta1'', ''requestauthentications'')
         else Inl (Error (''Unsupported Istio kind: '' @ toStringJS kind)))"

fun stringsOf :: "jsval list \<Rightarrow> string list" where
  "stringsOf [] = []"
| "stringsOf (JStr s # vs) = s # stringsOf vs"
| "stringsOf (v # vs) = stringsOf vs"

definition extractImagesFromDeploymentPatch :: "jsval \<Rightarrow> string list" where
  "extractImagesFromDeploymentPatch patch =
     (case optProp (optProp (optProp (optProp patch ''spec'') ''template'') ''spec'') ''containers'' of
        JArr containers \<Rightarrow> stringsOf (map (\<lambda>c. optProp c ''image'') containers)
      | _ \<Rightarrow> [])"

text \<open>\<^verbatim>\<open>allowedImages.length && images.some(img => !allowedImages.some(p => img.startsWith(p)))\<close>\<close>

definition imageNotAllowed :: "string list \<Rightarrow> string list \<Rightarrow> bool" where
  "imageNotAllowed allowedImages images =
     (allowedImages \<noteq> [] \<and> list_ex (\<lambda>img. \<not> list_ex (\<lambda>p. startsWith img p) allowedImages) images)"

subsection \<open>The cases of the switch\<close>

definition case_listNamespaces :: "'c backend \<Rightarrow> summarizer \<Rightarrow> ToolCall \<Rightarrow> ('c world, ToolResult) io" where
  "case_listNamespaces be summ call =
     bindE (invoke be ListNamespace []) (\<lambda>res.
     liftE (bindR (getProp res ''body'') (\<lambda>body.
            bindR (getProp body ''items'') (\<lambda>items.
            bindR (arrayMap (\<lambda>i. bindR (getProp i ''metadata'') (\<lambda>m. Inr (optProp m ''name''))) items) (\<lambda>names.
            okResult summ call (JArr (filter truthy names)) None)))))"

text \<open>\<^verbatim>\<open>listNamespacedPod\<close>, \<^verbatim>\<open>listNamespacedDeployment\<close>, \<^verbatim>\<open>listNamespacedService\<close>
  and \<^verbatim>\<open>listNamespacedConfigMap\<close> are the same code up to the client method and the
  kind hint. The namespace check is commented out in each of them.\<close>

definition case_listNamespaced ::
  "api \<Rightarrow> string \<Rightarrow> 'c backend \<Rightarrow> summarizer \<Rightarrow> ToolCall \<Rightarrow> ('c world, ToolResult) io" where
  "case_listNamespaced method kind be summ call =
     bindE (liftE (getProp (args call) ''namespace'')) (\<lambda>namespace.
       let labelSelector = readProp (args call) ''labelSelector'';
           fieldSelector = readProp (args call) ''fieldSelector'';
           limit = orElse (readProp (args call) ''limit'') (JNum 50);
           continueToken = readProp (args call) ''continueToken''
       in bindE (invoke be method
                   [namespace, JUndefined, JUndefined, continueToken, fieldSelector, labelSelector, limit]) (\<lambda>res.
          liftE (bindR (getProp res ''body'') (\<lambda>body. okResult summ call body (Some (JStr kind))))))"

definition case_listNamespacedEvent :: "'c backend \<Rightarrow> summarizer \<Rightarrow> ToolCall \<Rightarrow> ('c world, ToolResult) io" where
  "case_listNamespacedEvent be summ call =
     bindE (liftE (getProp (args call) ''namespace'')) (\<lambda>ns.
       let namespace = orFalsy ns (JStr ''default'')
       in bindE (invoke be ListNamespacedEvent
                   [namespace, JUndefined, JUndefined, JUndefined,
                    JStr (''involvedObject.namespace='' @ toStringJS namespace)]) (\<lambda>res.
          liftE (bindR (getProp res ''body'') (\<lambda>body.
                 bindR (getProp body ''items'') (\<lambda>items.
                 bindR (arrayMap (\<lambda>i. bindR (getProp i ''metadata'') (\<lambda>m.
                           Inr (JObj [(''name'', optProp m ''name''),
                                      (''message'', optProp i ''message''),
                                      (''namespace'', optProp m ''namespace'')]))) items) (\<lambda>events.
                 okResult summ call (JArr events) None))))))"

text \<open>\<^verbatim>\<open>getService\<close> and \<^verbatim>\<open>getConfigMap\<close>.\<close>

definition case_readNamespaced ::
  "api \<Rightarrow> 'c backend \<Rightarrow> summarizer \<Rightarrow> ToolCall \<Rightarrow> ('c world, ToolResult) io" where
  "case_readNamespaced method be summ call =
     bindE (liftE (destructure (args call))) (\<lambda>a.
       let namespace = readProp a ''namespace''; name = readProp a ''name''
       in bindE (invoke be method [name, namespace]) (\<lambda>res.
          liftE (bindR (getProp res ''body'') (\<lambda>body. okResult summ call body None))))"

definition case_listIstioObject :: "'c backend \<Rightarrow> summarizer \<Rightarrow> ToolCall \<Rightarrow> ('c world, ToolResult) io" where
  "case_listIstioObject be summ call =
     bindE (liftE (destructure (args call))) (\<lambda>a.
       let namespace = readProp a ''namespace''; kind = readProp a ''kind'';
           labelSelector = readProp a ''labelSelector'';
           fieldSelector = readProp a ''fieldSelector'';
           limit = orElse (readProp a ''limit'') (JNum 50);
           continueToken = readProp a ''continueToken''
       in bindE (liftE (getIstioResource kind)) (\<lambda>(group, version, plural).
          bindE (invoke be ListNamespacedCustomObject
                   [JStr group, JStr version, namespace, JStr plural, JUndefined, JUndefined,
                    orElse continueToken JNull, orElse fieldSelector JNull,
                    orElse labelSelector JNull, orElse limit JNull]) (\<lambda>res.
          liftE (bindR (getProp res ''body'') (\<lambda>body. okResult summ call body (Some kind))))))"

definition case_getIstioObject :: "'c backend \<Rightarrow> summarizer \<Rightarrow> ToolCall \<Rightarrow> ('c world, ToolResult) io" where
  "case_getIstioObject be summ call =
     bindE (liftE (destructure (args call))) (\<lambda>a.
       let namespace = readProp a ''namespace''; kind = readProp a ''kind''; name = readProp a ''name''
       in bindE (liftE (getIstioResource kind)) (\<lambda>(group, version, plural).
          bindE (invoke be GetNamespacedCustomObject
                   [JStr group, JStr version, namespace, JStr plural, name]) (\<lambda>res.
          liftE (bindR (getProp res ''body'') (\<lambda>body. okResult summ call body None)))))"

definition case_getNamespace :: "'c backend \<Rightarrow> summarizer \<Rightarrow> ToolCall \<Rightarrow> ('c world, ToolResult) io" where
  "case_getNamespace be summ call =
     bindE (liftE (getProp (args call) ''name'')) (\<lambda>name.
     bindE (invoke be ReadNamespace [name]) (\<lambda>res.
     liftE (bindR (nameOfBody res) (\<lambda>r. okResult summ call r None))))"

definition case_createNamespace :: "'c backend \<Rightarrow> summarizer \<Rightarrow> ToolCall \<Rightarrow> ('c world, ToolResult) io" where
  "case_createNamespace be summ call =
     bindE (liftE (getProp (args call) ''name'')) (\<lambda>name.
     bindE (invoke be CreateNamespace [JObj [(''metadata'', JObj [(''name'', name)])]]) (\<lambda>res.
     liftE (bindR (nameOfBody res) (\<lambda>r. okResult summ call r None))))"

text \<open>\<^verbatim>\<open>createPod\<close>: the namespace check and the image check are commented out.\<close>

definition case_createPod :: "'c backend \<Rightarrow> summarizer \<Rightarrow> ToolCall \<Rightarrow> ('c world, ToolResult) io" where
  "case_createPod be summ call =
     bindE (liftE (destructure (args call))) (\<lambda>a.
       let namespace = readProp a ''namespace''; name = readProp a ''name''; img = readProp a ''image'';
           pod = JObj [(''apiVersion'', JStr ''v1''),
                       (''kind'', JStr ''Pod''),
                       (''metadata'', JObj [(''name'', name)]),
                       (''spec'', JObj [(''restartPolicy'', JStr ''Never''),
                                        (''containers'', JArr [JObj [(''name'', JStr ''main''), (''image'', img)]])])]
       in bindE (invoke be CreateNamespacedPod [namespace, pod]) (\<lambda>res.
          liftE (bindR (nameOfBody res) (\<lambda>r. okResult summ call r None))))"

text \<open>\<^verbatim>\<open>createDeployment\<close>: the namespace, image and replica checks are commented out.\<close>

definition case_createDeployment :: "'c backend \<Rightarrow> summarizer \<Rightarrow> ToolCall \<Rightarrow> ('c world, ToolResult) io" where
  "case_createDeployment be summ call =
     bindE (liftE (destructure (args call))) (\<lambda>a.
       let namespace = readProp a ''namespace''; name = readProp a ''name''; img = readProp a ''image'';
           replicas = orElse (readProp a ''replicas'') (JNum 1);
           port = readProp a ''port'';
           deployment =
             JObj [(''apiVersion'', JStr ''apps/v1''),
                   (''kind'', JStr ''Deployment''),
                   (''metadata'', JObj [(''name'', name)]),
                   (''spec'', JObj
                      [(''replicas'', replicas),
                       (''selector'', JObj [(''matchLabels'', JObj [(''app'', name)])]),
                       (''template'', JObj
                          [(''metadata'', JObj [(''labels'', JObj [(''app'', name)])]),
                           (''spec'', JObj
                              [(''containers'', JArr
                                  [JObj [(''name'', JStr ''app''),
                                         (''image'', img),
                                         (''ports'', if truthy port
                                                     then JArr [JObj [(''containerPort'', port)]]
                                                     else JUndefined)]])])])])]
       in bindE (invoke be CreateNamespacedDeployment [namespace, deployment]) (\<lambda>res.
          liftE (bindR (nameOfBody res) (\<lambda>r. okResult summ call r None))))"

text \<open>\<^verbatim>\<open>updateDeployment\<close>: the namespace check is commented out, the image check is
  active.\<close>

definition case_updateDeployment ::
  "string list \<Rightarrow> 'c backend \<Rightarrow> summarizer \<Rightarrow> ToolCall \<Rightarrow> ('c world, ToolResult) io" where
  "case_updateDeployment allowedImages be summ call =
     bindE (liftE (destructure (args call))) (\<lambda>a.
       let namespace = readProp a ''namespace''; name = readProp a ''name''; patch = readProp a ''patch''
       in if \<not> truthy patch \<or> \<not> typeofObject patch then throwE (Error ''Patch must be an object'')
          else if imageNotAllowed allowedImages (extractImagesFromDeploymentPatch patch)
          then throwE (Error ''Image not allowed'')
          else bindE (invoke be PatchNamespacedDeployment
                        [name, namespace, patch, JUndefined, JUndefined, JUndefined, JUndefined, JUndefined,
                         JObj [(''headers'', JObj [(''Content-Type'', JStr ''application/strategic-merge-patch+json'')])]]) (\<lambda>res.
               liftE (bindR (nameOfBody res) (\<lambda>r. okResult summ call r None))))"

definition case_createIstioObject :: "'c backend \<Rightarrow> summarizer \<Rightarrow> ToolCall \<Rightarrow> ('c world, ToolResult) io" where
  "case_createIstioObject be summ call =
     bindE (liftE (destructure (args call))) (\<lambda>a.
       let namespace = readProp a ''namespace''; kind = readProp a ''kind''; manifest = readProp a ''manifest''
       in if \<not> truthy manifest \<or> \<not> typeofObject manifest then throwE (Error ''Manifest must be an object'')
          else bindE (liftE (getIstioResource kind)) (\<lambda>(group, version, plural).
               bindE (invoke be CreateNamespacedCustomObject
                        [JStr group, JStr version, namespace, JStr plural, manifest]) (\<lambda>res.
               liftE (bindR (getProp res ''body'') (\<lambda>body. okResult summ call body None)))))"

definition case_updateIstioObject :: "'c backend \<Rightarrow> summarizer \<Rightarrow> ToolCall \<Rightarrow> ('c world, ToolResult) io" where
  "case_updateIstioObject be summ call =
     bindE (liftE (destructure (args call))) (\<lambda>a.
       let namespace = readProp a ''namespace''; kind = readProp a ''kind'';
           name = readProp a ''name''; patch = readProp a ''patch''
       in if \<not> truthy patch \<or> \<not> typeofObject patch then throwE (Error ''Patch must be an object'')
          else bindE (liftE (getIstioResource kind)) (\<lambda>(group, version, plural).
               bindE (invoke be PatchNamespacedCustomObject
                        [JStr group, JStr version, namespace, JStr plural, name, patch,
                         JUndefined, JUndefined, JUndefined,
                         JObj [(''headers'', JObj [(''Content-Type'', JStr ''application/merge-patch+json'')])]]) (\<lambda>res.
               liftE (bindR (getProp res ''body'') (\<lambda>body. okResult summ call body None)))))"

definition case_createService :: "'c backend \<Rightarrow> summarizer \<Rightarrow> ToolCall \<Rightarrow> ('c world, ToolResult) io" where
  "case_createService be summ call =
     bindE (liftE (destructure (args call))) (\<lambda>a.
       let namespace = readProp a ''namespace''; name = readProp a ''name'';
           selector = readProp a ''selector''; port = readProp a ''port'';
           targetPort = readProp a ''targetPort''; type = readProp a ''type'';
           service = JObj [(''apiVersion'', JStr ''v1''),
                           (''kind'', JStr ''Service''),
                           (''metadata'', JObj [(''name'', name)]),
                           (''spec'', JObj [(''type'', orElse type (JStr ''ClusterIP'')),
                                            (''selector'', selector),
                                            (''ports'', JArr [JObj [(''port'', port),
                                                                    (''targetPort'', orElse targetPort port)]])])]
       in bindE (invoke be CreateNamespacedService [namespace, service]) (\<lambda>res.
          liftE (bindR (nameOfBody res) (\<lambda>r. okResult summ call r None))))"

definition case_createConfigMap :: "'c backend \<Rightarrow> summarizer \<Rightarrow> ToolCall \<Rightarrow> ('c world, ToolResult) io" where
  "case_createConfigMap be summ call =
     bindE (liftE (destructure (args call))) (\<lambda>a.
       let namespace = readProp a ''namespace''; name = readProp a ''name'';
           data = readProp a ''data''; binaryData = readProp a ''binaryData'';
           cm = JObj [(''apiVersion'', JStr ''v1''),
                      (''kind'', JStr ''ConfigMap''),
                      (''metadata'', JObj [(''name'', name)]),
                      (''data'', data),
                      (''binaryData'', binaryData)]
       in bindE (invoke be CreateNamespacedConfigMap [namespace, cm]) (\<lambda>res.
          liftE (bindR (nameOfBody res) (\<lambda>r. okResult summ call r None))))"

text \<open>Nested reads and assignments: \<^verbatim>\<open>o.a.b\<close>, \<^verbatim>\<open>o.a.b = v\<close> and
  \<^verbatim>\<open>if (!o.a.b) o.a.b = {}\<close>. Objects are values here, so an assignment below the top
  rebuilds the enclosing objects.\<close>

fun getPath :: "jsval \<Rightarrow> string list \<Rightarrow> error + jsval" where
  "getPath v [] = Inr v"
| "getPath v (k # ks) = bindR (getProp v k) (\<lambda>inner. getPath inner ks)"

fun setPath :: "jsval \<Rightarrow> string list \<Rightarrow> jsval \<Rightarrow> error + jsval" where
  "setPath v [] x = Inr x"
| "setPath v [k] x = setProp v k x"
| "setPath v (k # ks) x =
     bindR (getProp v k) (\<lambda>inner. bindR (setPath inner ks x) (\<lambda>inner'. setProp v k inner'))"

definition ensurePath :: "jsval \<Rightarrow> string list \<Rightarrow> error + jsval" where
  "ensurePath v ks = bindR (getPath v ks) (\<lambda>cur. if truthy cur then Inr v else setPath v ks (JObj []))"

text \<open>The own enumerable properties copied by an object spread \<^verbatim>\<open>{ ...v }\<close>.\<close>

fun ownProps :: "jsval \<Rightarrow> (string \<times> jsval) list" where
  "ownProps (JObj kvs) = kvs"
| "ownProps (JArr xs) = zip (map showNat [0 ..< length xs]) xs"
| "ownProps (JStr s) = zip (map showNat [0 ..< length s]) (map (\<lambda>c. JStr [c]) s)"
| "ownProps v = []"

text \<open>\<^verbatim>\<open>{ ...(a ?? {}), ...(b ?? {}) }\<close>\<close>

definition spread2 :: "jsval \<Rightarrow> jsval \<Rightarrow> jsval" where
  "spread2 a b = JObj (AList.merge (AList.merge [] (ownProps (orElse a (JObj [])))) (ownProps (orElse b (JObj []))))"

definition case_updateConfigMap :: "'c backend \<Rightarrow> summarizer \<Rightarrow> ToolCall \<Rightarrow> ('c world, ToolResult) io" where
  "case_updateConfigMap be summ call =
     bindE (liftE (destructure (args call))) (\<lambda>a.
       let namespace = readProp a ''namespace''; name = readProp a ''name'';
           data = readProp a ''data''; binaryData = readProp a ''binaryData''
       in if \<not> truthy data \<and> \<not> truthy binaryData then throwE (Error ''No ConfigMap data to update'')
          else bindE (invoke be ReadNamespacedConfigMap [name, namespace]) (\<lambda>current.
               bindE (liftE (bindR (getProp current ''body'') (\<lambda>cm.
                             bindR (getProp cm ''data'') (\<lambda>oldData.
                             bindR (setProp cm ''data'' (spread2 oldData data)) (\<lambda>cm1.
                             bindR (getProp cm1 ''binaryData'') (\<lambda>oldBinary.
                             setProp cm1 ''binaryData'' (spread2 oldBinary binaryData))))))) (\<lambda>cm2.
               bindE (invoke be ReplaceNamespacedConfigMap [name, namespace, cm2]) (\<lambda>updated.
               liftE (bindR (nameOfBody updated) (\<lambda>r. okResult summ call r None))))))"

definition case_updateService :: "'c backend \<Rightarrow> summarizer \<Rightarrow> ToolCall \<Rightarrow> ('c world, ToolResult) io" where
  "case_updateService be summ call =
     bindE (liftE (destructure (args call))) (\<lambda>a.
       let namespace = readProp a ''namespace''; name = readProp a ''name'';
           selector = readProp a ''selector''; port = readProp a ''port'';
           targetPort = readProp a ''targetPort''; type = readProp a ''type''
       in if \<not> truthy selector \<and> \<not> truthy port \<and> \<not> truthy targetPort \<and> \<not> truthy type
          then throwE (Error ''No service fields to update'')
          else bindE (invoke be ReadNamespacedService [name, namespace]) (\<lambda>current.
               bindE (liftE (bindR (getProp current ''body'') (\<lambda>service.
                             bindR (ensurePath service [''spec'']) (\<lambda>s1.
                             bindR (if truthy type then setPath s1 [''spec'', ''type''] type else Inr s1) (\<lambda>s2.
                             bindR (if truthy selector then setPath s2 [''spec'', ''selector''] selector else Inr s2) (\<lambda>s3.
                             if truthy port \<or> truthy targetPort
                             then setPath s3 [''spec'', ''ports'']
                                    (JArr [JObj [(''port'', orElse port (JNum 80)),
                                                 (''targetPort'', orElse (orElse targetPort port) (JNum 80))]])
                             else Inr s3)))))) (\<lambda>service'.
               bindE (invoke be ReplaceNamespacedService [name, namespace, service']) (\<lambda>updated.
               liftE (bindR (nameOfBody updated) (\<lambda>r. okResult summ call r None))))))"

text \<open>\<^verbatim>\<open>containers[0].image = image\<close>\<close>

fun assignFirstImage :: "jsval \<Rightarrow> jsval \<Rightarrow> error + jsval" where
  "assignFirstImage (JArr (c # cs)) img = bindR (setProp c ''image'' img) (\<lambda>c'. Inr (JArr (c' # cs)))"
| "assignFirstImage (JObj kvs) img =
     bindR (setProp (readProp (JObj kvs) ''0'') ''image'' img) (\<lambda>c'. setProp (JObj kvs) ''0'' c')"
| "assignFirstImage v img = Inl (TypeError ''Cannot set properties (setting image)'')"

text \<open>\<^verbatim>\<open>updateDeploymentImage\<close>: the namespace check and the image check are commented
  out.\<close>

definition case_updateDeploymentImage :: "'c backend \<Rightarrow> summarizer \<Rightarrow> ToolCall \<Rightarrow> ('c world, ToolResult) io" where
  "case_updateDeploymentImage be summ call =
     bindE (liftE (destructure (args call))) (\<lambda>a.
       let namespace = readProp a ''namespace''; name = readProp a ''name''; img = readProp a ''image''
       in bindE (invoke be ReadNamespacedDeployment [name, namespace]) (\<lambda>res.
          bindE (liftE (bindR (getProp res ''body'') (\<lambda>deployment.
                        bindR (getProp deployment ''spec'') (\<lambda>spec.
                          let containers = orElse (optProp (optProp (optProp spec ''template'') ''spec'') ''containers'') (JArr [])
                          in if \<not> truthy (jsLength containers) then Inl (Error ''No containers found to update'')
                             else bindR (assignFirstImage containers img) (\<lambda>containers'.
                                  bindR (ensurePath deployment [''spec'']) (\<lambda>d1.
                                  bindR (ensurePath d1 [''spec'', ''template'']) (\<lambda>d2.
                                  bindR (ensurePath d2 [''spec'', ''template'', ''spec'']) (\<lambda>d3.
                                  setPath d3 [''spec'', ''template'', ''spec'', ''containers''] containers')))))))) (\<lambda>deployment'.
          bindE (invoke be ReplaceNamespacedDeployment [name, namespace, deployment']) (\<lambda>updated.
          liftE (bindR (nameOfBody updated) (\<lambda>r. okResult summ call r None))))))"

definition case_deleteDeployment :: "'c backend \<Rightarrow> summarizer \<Rightarrow> ToolCall \<Rightarrow> ('c world, ToolResult) io" where
  "case_deleteDeployment be summ call =
     bindE (liftE (destructure (args call))) (\<lambda>a.
       let namespace = readProp a ''namespace''; name = readProp a ''name''
       in bindE (invoke be DeleteNamespacedDeployment [name, namespace]) (\<lambda>res.
          liftE (bindR (getProp res ''body'') (\<lambda>body.
                 okResult summ call (JObj [(''status'', optProp body ''status''),
                                           (''details'', optProp body ''details'')]) None))))"

text \<open>\<^verbatim>\<open>scaleDeployment\<close>: the namespace check and the replica check are commented out.\<close>

definition case_scaleDeployment :: "'c backend \<Rightarrow> summarizer \<Rightarrow> ToolCall \<Rightarrow> ('c world, ToolResult) io" where
  "case_scaleDeployment be summ call =
     bindE (liftE (destructure (args call))) (\<lambda>a.
       let namespace = readProp a ''namespace''; name = readProp a ''name''; replicas = readProp a ''replicas''
       in bindE (invoke be ReadNamespacedDeployment [name, namespace]) (\<lambda>current.
          bindE (liftE (bindR (getProp current ''body'') (\<lambda>deployment.
                        bindR (ensurePath deployment [''spec'']) (\<lambda>d1.
                        setPath d1 [''spec'', ''replicas''] replicas)))) (\<lambda>deployment'.
          bindE (invoke be ReplaceNamespacedDeployment [name, namespace, deployment']) (\<lambda>updated.
          liftE (bindR (getProp updated ''body'') (\<lambda>body.
                 bindR (getProp body ''metadata'') (\<lambda>m.
                 bindR (getProp body ''spec'') (\<lambda>spec.
                 okResult summ call (JObj [(''name'', optProp m ''name''),
                                           (''replicas'', optProp spec ''replicas'')]) None))))))))"

definition case_getDeploymentStatus :: "'c backend \<Rightarrow> summarizer \<Rightarrow> ToolCall \<Rightarrow> ('c world, ToolResult) io" where
  "case_getDeploymentStatus be summ call =
     bindE (liftE (getProp (args call) ''name'')) (\<lambda>name.
     bindE (invoke be ReadNamespacedDeployment [name, readProp (args call) ''namespace'']) (\<lambda>res.
     liftE (bindR (getProp res ''body'') (\<lambda>body.
            bindR (getProp body ''status'') (\<lambda>status.
            okResult summ call status None)))))"

subsection \<open>The switch and the catch\<close>

text \<open>The \<^verbatim>\<open>switch (call.tool)\<close> of \<^verbatim>\<open>executeTool\<close>, in the order of the source. It has no
  \<^verbatim>\<open>default\<close> branch: for any other string no case is selected.\<close>

definition toolCase ::
  "'c backend \<Rightarrow> summarizer \<Rightarrow> string list \<Rightarrow> string \<Rightarrow> (ToolCall \<Rightarrow> ('c world, ToolResult) io) option" where
  "toolCase be summ allowedImages t =
     (if t = ''listNamespaces'' then Some (case_listNamespaces be summ)
      else if t = ''listNamespacedPod'' then Some (case_listNamespaced ListNamespacedPod ''Pod'' be summ)
      else if t = ''listNamespacedEvent'' then Some (case_listNamespacedEvent be summ)
      else if t = ''listNamespacedDeployment'' then Some (case_listNamespaced ListNamespacedDeployment ''Deployment'' be summ)
      else if t = ''listNamespacedService'' then Some (case_listNamespaced ListNamespacedService ''Service'' be summ)
      else if t = ''getService'' then Some (case_readNamespaced ReadNamespacedService be summ)
      else if t = ''listNamespacedConfigMap'' then Some (case_listNamespaced ListNamespacedConfigMap ''ConfigMap'' be summ)
      else if t = ''getConfigMap'' then Some (case_readNamespaced ReadNamespacedConfigMap be summ)
      else if t = ''listIstioObject'' then Some (case_listIstioObject be summ)
      else if t = ''getIstioObject'' then Some (case_getIstioObject be summ)
      else if t = ''getNamespace'' then Some (case_getNamespace be summ)
      else if t = ''createNamespace'' then Some (case_createNamespace be summ)
      else if t = ''createPod'' then Some (case_createPod be summ)
      else if t = ''createDeployment'' then Some (case_createDeployment be summ)
      else if t = ''updateDeployment'' then Some (case_updateDeployment allowedImages be summ)
      else if t = ''createIstioObject'' then Some (case_createIstioObject be summ)
      else if t = ''updateIstioObject'' then Some (case_updateIstioObject be summ)
      else if t = ''createService'' then Some (case_createService be summ)
      else if t = ''createConfigMap'' then Some (case_createConfigMap be summ)
      else if t = ''updateConfigMap'' then Some (case_updateConfigMap be summ)
      else if t = ''updateService'' then Some (case_updateService be summ)
      else if t = ''updateDeploymentImage'' then Some (case_updateDeploymentImage be summ)
      else if t = ''deleteDeployment'' then Some (case_deleteDeployment be summ)
      else if t = ''scaleDeployment'' then Some (case_scaleDeployment be summ)
      else if t = ''getDeploymentStatus'' then Some (case_getDeploymentStatus be summ)
      else None)"

text \<open>\<^verbatim>\<open>executeTool(kc, call, allowedNamespaces, allowedImages, maxReplicas)\<close>. The client
  made from \<^verbatim>\<open>kc\<close> is the backend \<open>be\<close>. Whatever is thrown inside the selected case is
  caught and becomes a result with \<^verbatim>\<open>ok: false\<close> and \<^verbatim>\<open>result: e.message\<close>; when no
  case is selected the function ends without a \<^verbatim>\<open>return\<close>, which is \<open>None\<close>. The
  parameters \<open>allowedNamespaces\<close> and \<open>maxReplicas\<close> are not read by any case. Console
  logging is left out.\<close>

definition executeTool ::
  "'c backend \<Rightarrow> summarizer \<Rightarrow> ToolCall \<Rightarrow> string set \<Rightarrow> string list \<Rightarrow> int \<Rightarrow>
     'c world \<Rightarrow> ToolResult option \<times> 'c world" where
  "executeTool be summ call allowedNamespaces allowedImages maxReplicas w =
     (case toolCase be summ allowedImages (tool call) of
        None \<Rightarrow> (None, w)
      | Some body \<Rightarrow>
          (case body call w of
             (Inr r, w') \<Rightarrow> (Some r, w')
           | (Inl e, w') \<Rightarrow>
               (Some \<lparr>tool = tool call, args = args call, ok = False, result = JStr (message e)\<rparr>, w')))"

section \<open>Fallback planner\<close>

text \<open>The regular expressions of \<^verbatim>\<open>fallbackPlan\<close> are sequences of literals, two-way
  alternations of literals, and greedy repetitions of a character class, some of them
  captured. \<open>matchHere\<close> is the backtracking matcher anchored at the start of its input:
  a repetition first tries to take one more character and, if the rest then fails, gives
  it back. It returns the captured groups in order. \<open>search\<close> tries each start
  position from the left, as \<^verbatim>\<open>String.prototype.match\<close> does.\<close>

datatype cclass = White | NonWhite | Digit | AnyChar

fun inClass :: "cclass \<Rightarrow> char \<Rightarrow> bool" where
  "inClass White c = isSpace c"
| "inClass NonWhite c = (\<not> isSpace c)"
| "inClass Digit c = (48 \<le> (of_char c :: nat) \<and> (of_char c :: nat) \<le> 57)"
| "inClass AnyChar c = (c \<noteq> CHR 0x0A \<and> c \<noteq> CHR 0x0D)"

datatype rx =
    Lit string
  | Alt2 string string
  | Plus cclass
  | Star cclass
  | Group cclass

fun matchHere :: "rx list \<Rightarrow> string \<Rightarrow> string list option" where
  "matchHere [] s = Some []"
| "matchHere (Lit l # rs) s =
     (if startsWith s l then matchHere rs (drop (length l) s) else None)"
| "matchHere (Alt2 a b # rs) s =
     (case (if startsWith s a then matchHere rs (drop (length a) s) else None) of
        Some g \<Rightarrow> Some g
      | None \<Rightarrow> (if startsWith s b then matchHere rs (drop (length b) s) else None))"
| "matchHere (Plus c # rs) [] = None"
| "matchHere (Plus c # rs) (x # xs) =
     (if inClass c x
      then (case matchHere (Plus c # rs) xs of Some g \<Rightarrow> Some g | None \<Rightarrow> matchHere rs xs)
      else None)"
| "matchHere (Star c # rs) [] = matchHere rs []"
| "matchHere (Star c # rs) (x # xs) =
     (if inClass c x
      then (case matchHere (Star c # rs) xs of Some g \<Rightarrow> Some g | None \<Rightarrow> matchHere rs (x # xs))
      else matchHere rs (x # xs))"
| "matchHere (Group c # rs) [] = None"
| "matchHere (Group c # rs) (x # xs) =
     (if inClass c x
      then (case matchHere (Group c # rs) xs of
              Some (g # gs) \<Rightarrow> Some ((x # g) # gs)
            | _ \<Rightarrow> (case matchHere rs xs of Some gs \<Rightarrow> Some ([x] # gs) | None \<Rightarrow> None))
      else None)"

fun search :: "rx list \<Rightarrow> string \<Rightarrow> string list option" where
  "search rs [] = matchHere rs []"
| "search rs (x # xs) = (case matchHere rs (x # xs) of Some g \<Rightarrow> Some g | None \<Rightarrow> search rs xs)"

text \<open>\<^verbatim>\<open>/(?:create|deploy)\s+deployment\s+(\S+)/\<close> and the other patterns, in the order
  in which \<^verbatim>\<open>fallbackPlan\<close> tries them.\<close>

definition createDepRx :: "rx list" where
  "createDepRx = [Alt2 ''create'' ''deploy'', Plus White, Lit ''deployment'', Plus White, Group NonWhite]"

definition updateImageRx :: "rx list" where
  "updateImageRx = [Lit ''update'', Plus White, Lit ''deployment'', Plus White, Group NonWhite,
                    Star AnyChar, Lit ''image'', Plus White, Group NonWhite]"

definition deleteDepRx :: "rx list" where
  "deleteDepRx = [Alt2 ''delete'' ''remove'', Plus White, Lit ''deployment'', Plus White, Group NonWhite]"

definition createSvcRx :: "rx list" where
  "createSvcRx = [Alt2 ''create'' ''expose'', Plus White, Lit ''service'', Plus White, Group NonWhite]"

definition updateSvcRx :: "rx list" where
  "updateSvcRx = [Lit ''update'', Plus White, Lit ''service'', Plus White, Group NonWhite]"

definition getSvcRx :: "rx list" where
  "getSvcRx = [Alt2 ''get'' ''describe'', Plus White, Lit ''service'', Plus White, Group NonWhite]"

definition scaleRx :: "rx list" where
  "scaleRx = [Lit ''scale'', Plus White, Group NonWhite, Plus White, Lit ''to'', Plus White, Group Digit]"

text \<open>\<^verbatim>\<open>Number(digits)\<close> on a match of \<^verbatim>\<open>\d+\<close>: the decimal value, rounded to the nearest
  number with 53 significant bits (ties to even) as a double is. Values from \<open>2 ^ 1024\<close>
  on, which \<^verbatim>\<open>Number\<close> turns into \<^verbatim>\<open>Infinity\<close>, are outside this model.\<close>

fun bitLength :: "nat \<Rightarrow> nat" where
  "bitLength n = (if n = 0 then 0 else Suc (bitLength (n div 2)))"

declare bitLength.simps [simp del]

definition roundToDouble :: "nat \<Rightarrow> nat" where
  "roundToDouble n =
     (if n < 2 ^ 53 then n
      else (let e = bitLength n - 53; q = n div 2 ^ e; r = n mod 2 ^ e; h = 2 ^ (e - 1)
            in if h < r \<or> (r = h \<and> odd q) then (q + 1) * 2 ^ e else q * 2 ^ e))"

definition numberOfDigits :: "string \<Rightarrow> int" where
  "numberOfDigits ds = int (roundToDouble (foldl (\<lambda>n c. 10 * n + ((of_char c :: nat) - 48)) 0 ds))"

definition planOf :: "string \<Rightarrow> ToolCall list \<Rightarrow> bool \<Rightarrow> Plan" where
  "planOf s calls d = \<lparr>summary = s, toolCalls = calls, isDone = d\<rparr>"

definition callOf :: "string \<Rightarrow> (string \<times> jsval) list \<Rightarrow> ToolCall" where
  "callOf t kvs = \<lparr>tool = t, args = JObj kvs\<rparr>"

text \<open>The first block of \<^verbatim>\<open>fallbackPlan\<close>: with namespace results at the head of the
  history and a request about all pods, one \<^verbatim>\<open>listNamespacedPod\<close> call per namespace.
  \<open>Inr None\<close> means that the block did not return and the function goes on. Reading
  \<^verbatim>\<open>priorResults[0].tool\<close> raises when the first entry is \<^verbatim>\<open>undefined\<close>, and
  \<^verbatim>\<open>namespaces.map\<close> raises when the stored result is not an array.\<close>

definition podsOfNamespaces :: "string \<Rightarrow> ToolResult option list \<Rightarrow> error + Plan option" where
  "podsOfNamespaces text prior =
     (case prior of
        [] \<Rightarrow> Inr None
      | None # rest \<Rightarrow> Inl (TypeError ''Cannot read properties of undefined (reading tool)'')
      | Some r # rest \<Rightarrow>
          if tool r = ''listNamespaces'' \<and> includesJS text ''pod'' \<and> includesJS text ''all''
          then (case result r of
                  JArr namespaces \<Rightarrow>
                    Inr (Some (planOf ''List pods in all namespaces''
                                 (map (\<lambda>ns. callOf ''listNamespacedPod'' [(''namespace'', ns)]) namespaces)
                                 True))
                | JUndefined \<Rightarrow> Inl (TypeError ''Cannot read properties of undefined (reading map)'')
                | JNull \<Rightarrow> Inl (TypeError ''Cannot read properties of null (reading map)'')
                | _ \<Rightarrow> Inl (TypeError ''namespaces.map is not a function''))
          else Inr None)"

text \<open>The first capture of a match, and the second.\<close>

definition group1 :: "string list \<Rightarrow> string" where
  "group1 gs = (case gs of g # rest \<Rightarrow> g | [] \<Rightarrow> [])"

definition group2 :: "string list \<Rightarrow> string" where
  "group2 gs = (case gs of g # h # rest \<Rightarrow> h | _ \<Rightarrow> [])"

definition fallbackPlan :: "string \<Rightarrow> string \<Rightarrow> ToolResult option list \<Rightarrow> error + Plan" where
  "fallbackPlan userText defaultNamespace prior =
     (let text = toLowerCase userText
      in bindR (podsOfNamespaces text prior) (\<lambda>early.
         case early of
           Some p \<Rightarrow> Inr p
         | None \<Rightarrow>
           if includesJS text ''namespace'' \<and> (includesJS text ''list'' \<or> includesJS text ''what'')
           then Inr (planOf ''List all namespaces'' [callOf ''listNamespaces'' []] True)
           else if includesJS text ''pod'' \<and> includesJS text ''all''
           then Inr (planOf ''List all namespaces first'' [callOf ''listNamespaces'' []] False)
           else if includesJS text ''deploy'' \<and> includesJS text ''nginx''
           then Inr (planOf ''Deploy nginx pod''
                       [callOf ''getNamespace'' [(''name'', JStr defaultNamespace)],
                        callOf ''createPod'' [(''namespace'', JStr defaultNamespace),
                                              (''name'', JStr ''nginx''),
                                              (''image'', JStr ''nginx:latest'')]]
                       True)
           else case search createDepRx text of
             Some m \<Rightarrow>
               Inr (planOf (''Create deployment '' @ group1 m)
                      [callOf ''createDeployment'' [(''namespace'', JStr defaultNamespace),
                                                    (''name'', JStr (group1 m)),
                                                    (''image'', JStr ''nginx:latest'')]]
                      True)
           | None \<Rightarrow>
           (case search updateImageRx text of
             Some m \<Rightarrow>
               Inr (planOf (''Update deployment '' @ group1 m @ '' image'')
                      [callOf ''updateDeploymentImage'' [(''namespace'', JStr defaultNamespace),
                                                         (''name'', JStr (group1 m)),
                                                         (''image'', JStr (group2 m))]]
                      True)
           | None \<Rightarrow>
           (case search deleteDepRx text of
             Some m \<Rightarrow>
               Inr (planOf (''Delete deployment '' @ group1 m)
                      [callOf ''deleteDeployment'' [(''namespace'', JStr defaultNamespace),
                                                    (''name'', JStr (group1 m))]]
                      True)
           | None \<Rightarrow>
           if includesJS text ''deployment'' \<and> (includesJS text ''list'' \<or> includesJS text ''show'')
           then Inr (planOf ''List deployments''
                       [callOf ''listNamespacedDeployment'' [(''namespace'', JStr defaultNamespace)]] True)
           else case search createSvcRx text of
             Some m \<Rightarrow>
               Inr (planOf (''Create service '' @ group1 m)
                      [callOf ''createService'' [(''namespace'', JStr defaultNamespace),
                                                 (''name'', JStr (group1 m)),
                                                 (''selector'', JObj [(''app'', JStr (group1 m))]),
                                                 (''port'', JNum 80)]]
                      True)
           | None \<Rightarrow>
           (case search updateSvcRx text of
             Some m \<Rightarrow>
               Inr (planOf (''Update service '' @ group1 m)
                      [callOf ''updateService'' [(''namespace'', JStr defaultNamespace),
                                                 (''name'', JStr (group1 m)),
                                                 (''port'', JNum 80)]]
                      True)
           | None \<Rightarrow>
           (case search getSvcRx text of
             Some m \<Rightarrow>
               Inr (planOf (''Get service '' @ group1 m)
                      [callOf ''getService'' [(''namespace'', JStr defaultNamespace),
                                              (''name'', JStr (group1 m))]]
                      True)
           | None \<Rightarrow>
           if includesJS text ''service'' \<and> (includesJS text ''list'' \<or> includesJS text ''show'')
           then Inr (planOf ''List services''
                       [callOf ''listNamespacedService'' [(''namespace'', JStr defaultNamespace)]] True)
           else case search scaleRx text of
             Some m \<Rightarrow>
               Inr (planOf (''Scale deployment '' @ group1 m @ '' to '' @ group2 m)
                      [callOf ''scaleDeployment'' [(''name'', JStr (group1 m)),
                                                   (''namespace'', JStr defaultNamespace),
                                                   (''replicas'', JNum (numberOfDigits (group2 m)))]]
                      True)
           | None \<Rightarrow> Inl (Error ''Unable to understand request'')))))))"

section \<open>Planner and formatter adapters\<close>

text \<open>\<^verbatim>\<open>ExtensionConfig\<close>, and the collaborators outside the repository: the cluster
  backend, the list summarizer, the language-model API (its answer to the \<open>n\<close>-th use),
  the \<^verbatim>\<open>jsonrepair\<close> library, \<^verbatim>\<open>JSON.parse\<close>, the typed view \<^verbatim>\<open>as Plan\<close> of a decoded
  value, and the failure of \<^verbatim>\<open>loadFromDefault\<close>, if any.\<close>

record ExtensionConfig =
  defaultNamespace :: string
  allowedNamespaces :: "string set"
  maxReplicas :: int
  allowedImages :: "string list"

record 'c deps =
  backend :: "'c backend"
  summarizeK8sList :: summarizer
  lm :: "nat \<Rightarrow> lmReply"
  jsonrepair :: "string \<Rightarrow> error + string"
  jsonParse :: "string \<Rightarrow> error + jsval"
  asPlan :: "jsval \<Rightarrow> Plan"
  kubeConfigError :: "string option"

text \<open>\<^verbatim>\<open>s.replace(pat, "")\<close> with a string pattern removes the first occurrence only.\<close>

fun removeFirst :: "string \<Rightarrow> string \<Rightarrow> string" where
  "removeFirst pat [] = []"
| "removeFirst pat (c # cs) =
     (if startsWith (c # cs) pat then drop (length pat) (c # cs) else c # removeFirst pat cs)"

text \<open>\<^verbatim>\<open>rawText.replace("```json", "").replace("```", "")\<close>\<close>

definition cleanResponse :: "string \<Rightarrow> string" where
  "cleanResponse rawText = removeFirst ''```'' (removeFirst ''```json'' rawText)"

fun hasKey :: "jsval \<Rightarrow> string \<Rightarrow> bool" where
  "hasKey (JObj kvs) k = (k \<in> fst ` set kvs)"
| "hasKey v k = False"

definition isPlanShaped :: "jsval \<Rightarrow> bool" where
  "isPlanShaped v =
     (truthy v \<and> typeofObject v \<and> hasKey v ''summary'' \<and> hasKey v ''toolCalls'' \<and> hasKey v ''done'' \<and>
      (case readProp v ''done'' of JBool b \<Rightarrow> True | _ \<Rightarrow> False))"

text \<open>The scan of a decoded array for the first element of plan shape; an element that is
  a string starting with a brace is parsed first, which may throw.\<close>

fun scanElements :: "(string \<Rightarrow> error + jsval) \<Rightarrow> jsval list \<Rightarrow> error + jsval option" where
  "scanElements parse [] = Inr None"
| "scanElements parse (element # rest) =
     bindR (case element of
              JStr s \<Rightarrow> if startsWith (trim s) ''{'' then parse s else Inr element
            | _ \<Rightarrow> Inr element) (\<lambda>elementJson.
       if isPlanShaped elementJson then Inr (Some elementJson) else scanElements parse rest)"

text \<open>The \<^verbatim>\<open>try\<close> block of \<^verbatim>\<open>planWithLm\<close>.\<close>

definition decodePlan :: "('c, 'z) deps_scheme \<Rightarrow> string \<Rightarrow> error + Plan" where
  "decodePlan d rawText =
     bindR (jsonrepair d (cleanResponse rawText)) (\<lambda>cleanedJson.
     bindR (jsonParse d cleanedJson) (\<lambda>parsedJson.
       case parsedJson of
         JArr elements \<Rightarrow>
           bindR (scanElements (jsonParse d) elements) (\<lambda>found.
             case found of Some e \<Rightarrow> Inr (asPlan d e) | None \<Rightarrow> Inr (asPlan d parsedJson))
       | _ \<Rightarrow> Inr (asPlan d parsedJson)))"

text \<open>\<^verbatim>\<open>planWithLm\<close>: one use of the language-model API; an empty answer and any failure
  of the \<^verbatim>\<open>try\<close> block lead to \<^verbatim>\<open>fallbackPlan\<close>, whose own exception is not caught
  here.\<close>

definition planWithLm ::
  "'c deps \<Rightarrow> string \<Rightarrow> ExtensionConfig \<Rightarrow> ToolResult option list \<Rightarrow> ('c world, Plan) io" where
  "planWithLm d userText ctx prior =
     (\<lambda>w. let w1 = w\<lparr>lmUses := lmUses w + 1, planCalls := planCalls w + 1\<rparr>
           in case lm d (lmUses w) of
                LmMissing \<Rightarrow> (Inl (Error ''Language Model API not available''), w1)
              | ModelsUndefined \<Rightarrow> (Inl (Error ''No Copilot model available''), w1)
              | NoModel \<Rightarrow> (Inl (TypeError ''Cannot read properties of undefined (reading sendRequest)''), w1)
              | RequestFails msg \<Rightarrow> (Inl (Error msg), w1)
              | Chunks cs \<Rightarrow>
                  (let rawText = concat cs
                   in if rawText = [] then (fallbackPlan userText (defaultNamespace ctx) prior, w1)
                      else (case decodePlan d rawText of
                              Inr p \<Rightarrow> (Inr p, w1)
                            | Inl e \<Rightarrow> (fallbackPlan userText (defaultNamespace ctx) prior, w1))))"

text \<open>\<^verbatim>\<open>formatWithLm\<close> returns either the raw dump \<^verbatim>\<open>JSON.stringify(results, null, 2)\<close>
  or the concatenated narrative; only the chunks of the narrative are written to the
  stream.\<close>

datatype formatted = RawDump "ToolResult option list" | Rendered string

definition formatWithLm ::
  "'c deps \<Rightarrow> string \<Rightarrow> string \<Rightarrow> ToolResult option list \<Rightarrow> ('c world, formatted) io" where
  "formatWithLm d userText summ results =
     (\<lambda>w. let w1 = w\<lparr>lmUses := lmUses w + 1\<rparr>
           in case lm d (lmUses w) of
                LmMissing \<Rightarrow> (Inr (RawDump results), w1)
              | ModelsUndefined \<Rightarrow> (Inl (TypeError ''Cannot read properties of undefined (reading 0)''), w1)
              | NoModel \<Rightarrow> (Inr (RawDump results), w1)
              | RequestFails msg \<Rightarrow> (Inl (Error msg), w1)
              | Chunks cs \<Rightarrow> (Inr (Rendered (concat cs)), w1\<lparr>stream := stream w1 @ map Chunk cs\<rparr>))"

section \<open>Orchestration loop\<close>

definition MAX_ITERATIONS :: nat where
  "MAX_ITERATIONS = 10"

definition splitToolCalls :: "ToolCall list \<Rightarrow> ToolCall list \<times> ToolCall list" where
  "splitToolCalls calls =
     (filter (\<lambda>c. \<not> isMutating (tool c)) calls, filter (\<lambda>c. isMutating (tool c)) calls)"

text \<open>\<^verbatim>\<open>executeReadonlyCalls\<close>: each call in turn, each outcome pushed onto the history.
  The loop over \<^verbatim>\<open>pending.pendingToolCalls\<close> in \<^verbatim>\<open>handlePendingAction\<close> is the same
  loop.\<close>

fun executeReadonlyCalls ::
  "'c deps \<Rightarrow> ToolCall list \<Rightarrow> ExtensionConfig \<Rightarrow> ToolResult option list \<Rightarrow> 'c world \<Rightarrow>
     ToolResult option list \<times> 'c world" where
  "executeReadonlyCalls d [] cfg allResults w = (allResults, w)"
| "executeReadonlyCalls d (call # calls) cfg allResults w =
     (case executeTool (backend d) (summarizeK8sList d) call
             (allowedNamespaces cfg) (allowedImages cfg) (maxReplicas cfg) w of
        (r, w') \<Rightarrow> executeReadonlyCalls d calls cfg (allResults @ [r]) w')"

definition queuePendingActions ::
  "string \<Rightarrow> string \<Rightarrow> Plan \<Rightarrow> ToolCall list \<Rightarrow> ToolResult option list \<Rightarrow> 'c world \<Rightarrow> 'c world" where
  "queuePendingActions sessionKey userText p mutatingCalls prior w =
     w\<lparr>pendingBySession := (pendingBySession w)(sessionKey \<mapsto>
          \<lparr>originalUserText = userText, plan = p, pendingToolCalls = mutatingCalls, priorResults = prior\<rparr>)\<rparr>"

text \<open>\<^verbatim>\<open>promptForConfirmation\<close> builds the prompt before it writes it; reading
  \<^verbatim>\<open>c.args.note\<close> raises for a call without arguments.\<close>

definition promptForConfirmation :: "Plan \<Rightarrow> ToolCall list \<Rightarrow> ('c world, unit) io" where
  "promptForConfirmation p mutatingCalls =
     (\<lambda>w. if list_ex (\<lambda>c. nullish (args c)) mutatingCalls
           then (Inl (TypeError ''Cannot read properties of undefined (reading note)''), w)
           else (Inr (), w\<lparr>stream := stream w @
                   [PlannedChanges (summary p) mutatingCalls,
                    Button ''kubeCopilot.kube.confirm'',
                    Button ''kubeCopilot.kube.cancel'']\<rparr>))"

text \<open>How the \<^verbatim>\<open>while\<close> loop of \<^verbatim>\<open>runAgentLoop\<close> is left: by a \<^verbatim>\<open>return\<close> inside it, or
  at its end (by \<^verbatim>\<open>break\<close> or by the loop condition) with the iteration count, the
  accumulated results and the current summary.\<close>

datatype loopExit = Returned | LoopEnd nat "ToolResult option list" string

function agentLoop ::
  "'c deps \<Rightarrow> string \<Rightarrow> ExtensionConfig \<Rightarrow> string \<Rightarrow> nat \<Rightarrow> ToolResult option list \<Rightarrow> string \<Rightarrow>
     'c world \<Rightarrow> (error + loopExit) \<times> 'c world" where
  "agentLoop d userText cfg sessionKey iterationCount allResults currentSummary w =
     (if iterationCount < MAX_ITERATIONS then
        (case planWithLm d userText cfg allResults w of
           (Inl e, w1) \<Rightarrow> (Inr Returned, w1\<lparr>stream := stream w1 @ [FailedToPlan (message e)]\<rparr>)
         | (Inr p, w1) \<Rightarrow>
             if toolCalls p = [] \<and> isDone p
             then (Inr (LoopEnd (iterationCount + 1) allResults (summary p)), w1)
             else (case splitToolCalls (toolCalls p) of
                     (readonlyCalls, mutatingCalls) \<Rightarrow>
                       (case executeReadonlyCalls d readonlyCalls cfg allResults w1 of
                          (allResults', w2) \<Rightarrow>
                            if mutatingCalls \<noteq> [] then
                              (case promptForConfirmation p mutatingCalls
                                      (queuePendingActions sessionKey userText p mutatingCalls allResults' w2) of
                                 (Inl e, w3) \<Rightarrow> (Inl e, w3)
                               | (Inr u, w3) \<Rightarrow> (Inr Returned, w3))
                            else if isDone p
                            then (Inr (LoopEnd (iterationCount + 1) allResults' (summary p)), w2)
                            else agentLoop d userText cfg sessionKey (iterationCount + 1)
                                   allResults' (summary p) w2)))
      else (Inr (LoopEnd iterationCount allResults currentSummary), w))"
  by pat_completeness auto
termination
  by (relation "measure (\<lambda>(d, userText, cfg, sessionKey, iterationCount, allResults, currentSummary, w).
                           MAX_ITERATIONS - iterationCount)") auto

declare agentLoop.simps [simp del]

definition runAgentLoop ::
  "'c deps \<Rightarrow> string \<Rightarrow> ExtensionConfig \<Rightarrow> string \<Rightarrow> ToolResult option list \<Rightarrow> ('c world, unit) io" where
  "runAgentLoop d userText cfg sessionKey initialResults =
     (\<lambda>w. case agentLoop d userText cfg sessionKey 0 initialResults [] w of
             (Inl e, w1) \<Rightarrow> (Inl e, w1)
           | (Inr Returned, w1) \<Rightarrow> (Inr (), w1)
           | (Inr (LoopEnd iterationCount allResults currentSummary), w1) \<Rightarrow>
               (let w2 = (if iterationCount \<ge> MAX_ITERATIONS
                          then w1\<lparr>stream := stream w1 @ [MaxIterationsNotice]\<rparr> else w1)
                in case formatWithLm d userText currentSummary allResults w2 of
                     (Inl e, w3) \<Rightarrow> (Inl e, w3)
                   | (Inr f, w3) \<Rightarrow> (Inr (), w3)))"

text \<open>\<^verbatim>\<open>/^(confirm|yes|proceed|ok)$/i\<close> and \<^verbatim>\<open>/^(cancel|no|stop)$/i\<close>\<close>

definition affirmative :: "string \<Rightarrow> bool" where
  "affirmative userText = (toLowerCase userText \<in> set [''confirm'', ''yes'', ''proceed'', ''ok''])"

definition negative :: "string \<Rightarrow> bool" where
  "negative userText = (toLowerCase userText \<in> set [''cancel'', ''no'', ''stop''])"

definition handlePendingAction ::
  "'c deps \<Rightarrow> string \<Rightarrow> PendingAction \<Rightarrow> string \<Rightarrow> ExtensionConfig \<Rightarrow> ('c world, bool) io" where
  "handlePendingAction d userText pending sessionKey cfg =
     (\<lambda>w. if affirmative userText then
             (case executeReadonlyCalls d (pendingToolCalls pending) cfg (priorResults pending)
                     (w\<lparr>stream := stream w @ [ConfirmedNotice]\<rparr>) of
                (results, w1) \<Rightarrow>
                  (let w2 = w1\<lparr>pendingBySession := (pendingBySession w1)(sessionKey := None)\<rparr>
                   in if \<not> isDone (plan pending)
                      then (case runAgentLoop d (originalUserText pending) cfg sessionKey results w2 of
                              (Inl e, w3) \<Rightarrow> (Inl e, w3)
                            | (Inr u, w3) \<Rightarrow> (Inr True, w3))
                      else (case formatWithLm d (originalUserText pending) (summary (plan pending)) results w2 of
                              (Inl e, w3) \<Rightarrow> (Inl e, w3)
                            | (Inr f, w3) \<Rightarrow> (Inr True, w3))))
           else if negative userText then
             (Inr True, w\<lparr>pendingBySession := (pendingBySession w)(sessionKey := None),
                          stream := stream w @ [CancelledNotice]\<rparr>)
           else (Inr False, w))"

text \<open>\<^verbatim>\<open>handleChatRequest\<close>, one user turn. The session key and the configuration are read
  from the workspace and are arguments here.\<close>

definition handleChatRequest ::
  "'c deps \<Rightarrow> ExtensionConfig \<Rightarrow> string \<Rightarrow> string \<Rightarrow> ('c world, unit) io" where
  "handleChatRequest d cfg sessionKey prompt =
     (\<lambda>w. let userText = trim prompt
           in if userText = [] then (Inr (), w\<lparr>stream := stream w @ [HelpText]\<rparr>)
              else (case kubeConfigError d of
                      Some msg \<Rightarrow> (Inr (), w\<lparr>stream := stream w @ [FailedKubeconfig msg]\<rparr>)
                    | None \<Rightarrow>
                        (case pendingBySession w sessionKey of
                           None \<Rightarrow> runAgentLoop d userText cfg sessionKey [] w
                         | Some pending \<Rightarrow>
                             (case handlePendingAction d userText pending sessionKey cfg w of
                                (Inl e, w1) \<Rightarrow> (Inl e, w1)
                              | (Inr handled, w1) \<Rightarrow>
                                  if handled then (Inr (), w1)
                                  else runAgentLoop d userText cfg sessionKey [] w1))))"

text \<open>A conversation: the turns of one session in order. A turn that ends in an uncaught
  exception leaves the world as it was at the throw.\<close>

fun conversation :: "'c deps \<Rightarrow> ExtensionConfig \<Rightarrow> string \<Rightarrow> string list \<Rightarrow> 'c world \<Rightarrow> 'c world" where
  "conversation d cfg sessionKey [] w = w"
| "conversation d cfg sessionKey (prompt # prompts) w =
     conversation d cfg sessionKey prompts (snd (handleChatRequest d cfg sessionKey prompt w))"

section \<open>Sample collaborators\<close>

text \<open>Concrete collaborators on which the theorems below are instantiated: a backend that
  answers every invocation with the same response object and counts its calls, a backend
  that rejects every invocation, the identity summarizer, a decoder that ignores its
  input, and an empty world.\<close>

definition toolNames :: "string list" where
  "toolNames =
     [''listNamespaces'', ''listNamespacedPod'', ''listNamespacedEvent'', ''listNamespacedDeployment'',
      ''listNamespacedService'', ''getService'', ''listNamespacedConfigMap'', ''getConfigMap'',
      ''listIstioObject'', ''getIstioObject'', ''getNamespace'', ''createNamespace'', ''createPod'',
      ''createDeployment'', ''updateDeployment'', ''updateDeploymentImage'', ''createIstioObject'',
      ''updateIstioObject'', ''createConfigMap'', ''updateConfigMap'', ''createService'',
      ''updateService'', ''deleteDeployment'', ''scaleDeployment'', ''getDeploymentStatus'']"

definition sampleResponse :: jsval where
  "sampleResponse =
     JObj [(''body'', JObj [(''metadata'', JObj [(''name'', JStr ''demo'')]),
                            (''items'', JArr []),
                            (''spec'', JObj [(''replicas'', JNum 1)]),
                            (''status'', JStr ''Success'')])]"

definition acceptingBackend :: "nat backend" where
  "acceptingBackend = (\<lambda>inv c. (Inr sampleResponse, Suc c))"

definition rejectingBackend :: "nat backend" where
  "rejectingBackend = (\<lambda>inv c. (Inl (Error ''Forbidden''), Suc c))"

definition idSummarizer :: summarizer where
  "idSummarizer = (\<lambda>items kindHint. Inr items)"

definition emptyWorld :: "nat world" where
  "emptyWorld = \<lparr>cluster = 0, invoked = [], pendingBySession = (\<lambda>k. None), stream = [],
                  lmUses = 0, planCalls = 0\<rparr>"

definition sampleConfig :: ExtensionConfig where
  "sampleConfig = \<lparr>defaultNamespace = ''dev'', allowedNamespaces = {''dev'', ''qa''},
                    maxReplicas = 20, allowedImages = [''nginx:'']\<rparr>"

text \<open>Collaborators for whole turns: the oracle's answers are given; \<^verbatim>\<open>jsonrepair\<close> hands
  its input on, and every oracle text decodes to the plan \<open>decoded\<close>. An empty oracle
  answer therefore leads to the fallback planner, a non-empty one to \<open>decoded\<close>.\<close>

definition sampleDeps :: "(nat \<Rightarrow> lmReply) \<Rightarrow> Plan \<Rightarrow> nat deps" where
  "sampleDeps answers decoded =
     \<lparr>backend = acceptingBackend, summarizeK8sList = idSummarizer, lm = answers,
      jsonrepair = (\<lambda>s. Inr s), jsonParse = (\<lambda>s. Inr JNull), asPlan = (\<lambda>v. decoded),
      kubeConfigError = None\<rparr>"

definition nothingToDo :: Plan where
  "nothingToDo = planOf ''Nothing to do'' [] True"

definition lookAgain :: Plan where
  "lookAgain = planOf ''Look again'' [callOf ''listNamespaces'' []] False"

text \<open>The oracle is silent on the first use and talks afterwards; it always talks; it is
  silent once and missing afterwards.\<close>

definition silentFirst :: "nat \<Rightarrow> lmReply" where
  "silentFirst n = (if n = 0 then Chunks [] else Chunks [''ok''])"

definition talkative :: "nat \<Rightarrow> lmReply" where
  "talkative n = Chunks [''ok'']"

definition silentThenMissing :: "nat \<Rightarrow> lmReply" where
  "silentThenMissing n = (if n = 0 then Chunks [] else LmMissing)"

definition nginxPod :: ToolCall where
  "nginxPod = callOf ''createPod'' [(''namespace'', JStr ''dev''), (''name'', JStr ''nginx''),
                                    (''image'', JStr ''nginx:latest'')]"

definition nginxPending :: PendingAction where
  "nginxPending = \<lparr>originalUserText = ''deploy nginx'', plan = planOf ''Deploy nginx pod'' [nginxPod] True,
                    pendingToolCalls = [nginxPod], priorResults = []\<rparr>"

definition pendingWorld :: "nat world" where
  "pendingWorld = emptyWorld\<lparr>pendingBySession := (\<lambda>k. if k = ''s'' then Some nginxPending else None)\<rparr>"








text \<open>The outcome of \<^verbatim>\<open>listNamespaces\<close> on the accepting backend, and the world after \<open>n\<close>
  iterations of a planning loop that lists the namespaces in each iteration.\<close>

definition lookResult :: "ToolResult option" where
  "lookResult = Some \<lparr>tool = ''listNamespaces'', args = JObj [], ok = True, result = JArr []\<rparr>"

definition lookedWorld :: "nat \<Rightarrow> nat world" where
  "lookedWorld n = \<lparr>cluster = n, invoked = replicate n (ListNamespace, []), pendingBySession = (\<lambda>k. None),
                     stream = [], lmUses = n, planCalls = n\<rparr>"

section \<open>Vocabulary of the properties\<close>

text \<open>The client methods that write to the cluster.\<close>

fun mutatingApi :: "api \<Rightarrow> bool" where
  "mutatingApi CreateNamespace = True"
| "mutatingApi CreateNamespacedPod = True"
| "mutatingApi CreateNamespacedDeployment = True"
| "mutatingApi PatchNamespacedDeployment = True"
| "mutatingApi CreateNamespacedCustomObject = True"
| "mutatingApi PatchNamespacedCustomObject = True"
| "mutatingApi CreateNamespacedService = True"
| "mutatingApi CreateNamespacedConfigMap = True"
| "mutatingApi ReplaceNamespacedConfigMap = True"
| "mutatingApi ReplaceNamespacedService = True"
| "mutatingApi ReplaceNamespacedDeployment = True"
| "mutatingApi DeleteNamespacedDeployment = True"
| "mutatingApi a = False"

text \<open>The invocations made between two worlds: \<open>w'\<close> extends the log of \<open>w\<close> by
  invocations of methods in \<open>P\<close> only. \<open>onlyInvokes\<close> says in addition that nothing but
  the cluster and the log has changed.\<close>

definition logExtends :: "(api \<Rightarrow> bool) \<Rightarrow> 'c world \<Rightarrow> 'c world \<Rightarrow> bool" where
  "logExtends P w w' = (\<exists>new. invoked w' = invoked w @ new \<and> list_all (\<lambda>i. P (fst i)) new)"

definition onlyInvokes :: "(api \<Rightarrow> bool) \<Rightarrow> 'c world \<Rightarrow> 'c world \<Rightarrow> bool" where
  "onlyInvokes P w w' =
     (pendingBySession w' = pendingBySession w \<and> stream w' = stream w \<and>
      lmUses w' = lmUses w \<and> planCalls w' = planCalls w \<and> logExtends P w w')"

definition ioOnly :: "(api \<Rightarrow> bool) \<Rightarrow> ('c world, 'a) io \<Rightarrow> bool" where
  "ioOnly P m = (\<forall>w. onlyInvokes P w (snd (m w)))"

definition readOnly :: "api \<Rightarrow> bool" where
  "readOnly a = (\<not> mutatingApi a)"

definition anyApi :: "api \<Rightarrow> bool" where
  "anyApi a = True"

text \<open>The read-only phase of one planning iteration: the calls of the plan that the
  classifier calls read-only, executed in order on top of the history. And the world in
  which a turn is suspended: the mutating calls of the plan are stored for the session
  and the confirmation prompt with its two buttons is written.\<close>

definition afterReadonly ::
  "'c deps \<Rightarrow> ExtensionConfig \<Rightarrow> Plan \<Rightarrow> ToolResult option list \<Rightarrow> 'c world \<Rightarrow>
     ToolResult option list \<times> 'c world" where
  "afterReadonly d cfg p rs w =
     executeReadonlyCalls d (filter (\<lambda>c. \<not> isMutating (tool c)) (toolCalls p)) cfg rs w"


text \<open>\<^verbatim>\<open>handlePendingAction\<close> awaits its continuation and then returns \<^verbatim>\<open>true\<close>; an
  exception of the continuation passes through.\<close>

definition handled :: "(error + 'a) \<times> 'w \<Rightarrow> (error + bool) \<times> 'w" where
  "handled x = (case x of (Inl e, w) \<Rightarrow> (Inl e, w) | (Inr y, w) \<Rightarrow> (Inr True, w))"

text \<open>The effect of a batch of calls, told without the loop that runs it: the world after
  the calls is the world obtained by running \<open>executeTool\<close> once on each call, in order,
  and the outcome of the \<open>j\<close>-th call is what \<open>executeTool\<close> returns for it in the world
  left by the calls before it.\<close>

definition execStep :: "'c deps \<Rightarrow> ExtensionConfig \<Rightarrow> 'c world \<Rightarrow> ToolCall \<Rightarrow> 'c world" where
  "execStep d cfg w c =
     snd (executeTool (backend d) (summarizeK8sList d) c
            (allowedNamespaces cfg) (allowedImages cfg) (maxReplicas cfg) w)"

definition worldAfterCalls :: "'c deps \<Rightarrow> ExtensionConfig \<Rightarrow> ToolCall list \<Rightarrow> 'c world \<Rightarrow> 'c world" where
  "worldAfterCalls d cfg calls w = foldl (execStep d cfg) w calls"

definition outcomeOf ::
  "'c deps \<Rightarrow> ExtensionConfig \<Rightarrow> ToolCall list \<Rightarrow> 'c world \<Rightarrow> nat \<Rightarrow> ToolResult option" where
  "outcomeOf d cfg calls w j =
     fst (executeTool (backend d) (summarizeK8sList d) (calls ! j)
            (allowedNamespaces cfg) (allowedImages cfg) (maxReplicas cfg)
            (worldAfterCalls d cfg (take j calls) w))"

text \<open>\<^verbatim>\<open>handleChatRequest\<close> awaits a continuation and forgets its value.\<close>

definition turnOf :: "(error + 'a) \<times> 'w \<Rightarrow> (error + unit) \<times> 'w" where
  "turnOf x = (case x of (Inl e, w) \<Rightarrow> (Inl e, w) | (Inr y, w) \<Rightarrow> (Inr (), w))"

text \<open>The history and the world at the start of iteration \<open>n\<close> (counted from zero) of a
  planning loop that was started with the history \<open>rs0\<close> in the world \<open>w0\<close>, or \<open>None\<close>
  when the loop has been left before: an iteration is followed by another one when its
  plan is not done and has no mutating call.\<close>

fun loopState ::
  "'c deps \<Rightarrow> string \<Rightarrow> ExtensionConfig \<Rightarrow> ToolResult option list \<Rightarrow> 'c world \<Rightarrow> nat \<Rightarrow>
     (ToolResult option list \<times> 'c world) option" where
  "loopState d u cfg rs0 w0 0 = Some (rs0, w0)"
| "loopState d u cfg rs0 w0 (Suc n) =
     (case loopState d u cfg rs0 w0 n of
        None \<Rightarrow> None
      | Some (rs, w) \<Rightarrow>
          if n < MAX_ITERATIONS then
            (case planWithLm d u cfg rs w of
               (Inl e, w1) \<Rightarrow> None
             | (Inr p, w1) \<Rightarrow>
                 if filter (\<lambda>c. isMutating (tool c)) (toolCalls p) = [] \<and> \<not> isDone p
                 then Some (afterReadonly d cfg p rs w1)
                 else None)
          else None)"

section \<open>Facts about tool execution\<close>

lemma bindE_InrE:
  assumes "bindE m f w = (Inr r, w')"
  obtains x w1 where "m w = (Inr x, w1)" and "f x w1 = (Inr r, w')"
  using assms by (auto simp: bindE_def split: prod.splits sum.splits)

lemma liftE_InrE:
  assumes "liftE x w = (Inr r, w')"
  obtains "x = Inr r" and "w' = w"
  using assms by (auto simp: liftE_def)

lemma bindR_InrE:
  assumes "bindR m f = Inr r"
  obtains x where "m = Inr x" and "f x = Inr r"
  using assms by (auto simp: bindR_def split: sum.splits)

lemma throwE_not_Inr [simp]: "throwE e w \<noteq> (Inr r, w')"
  by (simp add: throwE_def)

lemmas io_InrE = bindE_InrE liftE_InrE bindR_InrE

text \<open>Every value returned through \<^verbatim>\<open>ok(...)\<close> is a success record for the call.\<close>

lemma okResult_ok:
  "okResult summ call res opts = Inr r \<Longrightarrow> ok r \<and> tool r = tool call \<and> args r = args call"
  by (auto simp: okResult_def plainResult_def Let_def bindR_def
           split: option.splits jsval.splits sum.splits bool.splits)

lemma case_listNamespaces_ok:
  "case_listNamespaces be summ call w = (Inr r, w') \<Longrightarrow> ok r \<and> tool r = tool call \<and> args r = args call"
  unfolding case_listNamespaces_def by (elim io_InrE) (simp add: okResult_ok)

lemma case_listNamespaced_ok:
  "case_listNamespaced m k be summ call w = (Inr r, w') \<Longrightarrow> ok r \<and> tool r = tool call \<and> args r = args call"
  unfolding case_listNamespaced_def Let_def by (elim io_InrE) (simp add: okResult_ok)

lemma case_listNamespacedEvent_ok:
  "case_listNamespacedEvent be summ call w = (Inr r, w') \<Longrightarrow> ok r \<and> tool r = tool call \<and> args r = args call"
  unfolding case_listNamespacedEvent_def Let_def by (elim io_InrE) (simp add: okResult_ok)

lemma case_readNamespaced_ok:
  "case_readNamespaced m be summ call w = (Inr r, w') \<Longrightarrow> ok r \<and> tool r = tool call \<and> args r = args call"
  unfolding case_readNamespaced_def Let_def by (elim io_InrE) (simp add: okResult_ok)

lemma case_listIstioObject_ok:
  "case_listIstioObject be summ call w = (Inr r, w') \<Longrightarrow> ok r \<and> tool r = tool call \<and> args r = args call"
  unfolding case_listIstioObject_def Let_def
  by (auto split: if_splits prod.splits elim!: io_InrE dest: okResult_ok)

lemma case_getIstioObject_ok:
  "case_getIstioObject be summ call w = (Inr r, w') \<Longrightarrow> ok r \<and> tool r = tool call \<and> args r = args call"
  unfolding case_getIstioObject_def Let_def
  by (auto split: if_splits prod.splits elim!: io_InrE dest: okResult_ok)

lemma case_getNamespace_ok:
  "case_getNamespace be summ call w = (Inr r, w') \<Longrightarrow> ok r \<and> tool r = tool call \<and> args r = args call"
  unfolding case_getNamespace_def by (elim io_InrE) (simp add: okResult_ok)

lemma case_createNamespace_ok:
  "case_createNamespace be summ call w = (Inr r, w') \<Longrightarrow> ok r \<and> tool r = tool call \<and> args r = args call"
  unfolding case_createNamespace_def by (elim io_InrE) (simp add: okResult_ok)

lemma case_createPod_ok:
  "case_createPod be summ call w = (Inr r, w') \<Longrightarrow> ok r \<and> tool r = tool call \<and> args r = args call"
  unfolding case_createPod_def Let_def by (elim io_InrE) (simp add: okResult_ok)

lemma case_createDeployment_ok:
  "case_createDeployment be summ call w = (Inr r, w') \<Longrightarrow> ok r \<and> tool r = tool call \<and> args r = args call"
  unfolding case_createDeployment_def Let_def by (elim io_InrE) (simp add: okResult_ok)

lemma case_updateDeployment_ok:
  "case_updateDeployment imgs be summ call w = (Inr r, w') \<Longrightarrow> ok r \<and> tool r = tool call \<and> args r = args call"
  unfolding case_updateDeployment_def Let_def
  by (auto split: if_splits elim!: io_InrE dest: okResult_ok)

lemma case_createIstioObject_ok:
  "case_createIstioObject be summ call w = (Inr r, w') \<Longrightarrow> ok r \<and> tool r = tool call \<and> args r = args call"
  unfolding case_createIstioObject_def Let_def
  by (auto split: if_splits prod.splits elim!: io_InrE dest: okResult_ok)

lemma case_updateIstioObject_ok:
  "case_updateIstioObject be summ call w = (Inr r, w') \<Longrightarrow> ok r \<and> tool r = tool call \<and> args r = args call"
  unfolding case_updateIstioObject_def Let_def
  by (auto split: if_splits prod.splits elim!: io_InrE dest: okResult_ok)

lemma case_createService_ok:
  "case_createService be summ call w = (Inr r, w') \<Longrightarrow> ok r \<and> tool r = tool call \<and> args r = args call"
  unfolding case_createService_def Let_def by (elim io_InrE) (simp add: okResult_ok)

lemma case_createConfigMap_ok:
  "case_createConfigMap be summ call w = (Inr r, w') \<Longrightarrow> ok r \<and> tool r = tool call \<and> args r = args call"
  unfolding case_createConfigMap_def Let_def by (elim io_InrE) (simp add: okResult_ok)

lemma case_updateConfigMap_ok:
  "case_updateConfigMap be summ call w = (Inr r, w') \<Longrightarrow> ok r \<and> tool r = tool call \<and> args r = args call"
  unfolding case_updateConfigMap_def Let_def
  by (auto split: if_splits elim!: io_InrE dest: okResult_ok)

lemma case_updateService_ok:
  "case_updateService be summ call w = (Inr r, w') \<Longrightarrow> ok r \<and> tool r = tool call \<and> args r = args call"
  unfolding case_updateService_def Let_def
  by (auto split: if_splits elim!: io_InrE dest: okResult_ok)

lemma case_updateDeploymentImage_ok:
  "case_updateDeploymentImage be summ call w = (Inr r, w') \<Longrightarrow> ok r \<and> tool r = tool call \<and> args r = args call"
  unfolding case_updateDeploymentImage_def Let_def
  by (auto split: if_splits elim!: io_InrE dest: okResult_ok)

lemma case_deleteDeployment_ok:
  "case_deleteDeployment be summ call w = (Inr r, w') \<Longrightarrow> ok r \<and> tool r = tool call \<and> args r = args call"
  unfolding case_deleteDeployment_def Let_def by (elim io_InrE) (simp add: okResult_ok)

lemma case_scaleDeployment_ok:
  "case_scaleDeployment be summ call w = (Inr r, w') \<Longrightarrow> ok r \<and> tool r = tool call \<and> args r = args call"
  unfolding case_scaleDeployment_def Let_def by (elim io_InrE) (simp add: okResult_ok)

lemma case_getDeploymentStatus_ok:
  "case_getDeploymentStatus be summ call w = (Inr r, w') \<Longrightarrow> ok r \<and> tool r = tool call \<and> args r = args call"
  unfolding case_getDeploymentStatus_def by (elim io_InrE) (simp add: okResult_ok)

lemmas case_ok =
  case_listNamespaces_ok case_listNamespaced_ok case_listNamespacedEvent_ok case_readNamespaced_ok
  case_listIstioObject_ok case_getIstioObject_ok case_getNamespace_ok case_createNamespace_ok
  case_createPod_ok case_createDeployment_ok case_updateDeployment_ok case_createIstioObject_ok
  case_updateIstioObject_ok case_createService_ok case_createConfigMap_ok case_updateConfigMap_ok
  case_updateService_ok case_updateDeploymentImage_ok case_deleteDeployment_ok
  case_scaleDeployment_ok case_getDeploymentStatus_ok

lemma toolCase_ok:
  assumes "toolCase be summ imgs t = Some body" and "body call w = (Inr r, w')"
  shows "ok r \<and> tool r = tool call \<and> args r = args call"
  using assms unfolding toolCase_def
  by (auto split: if_splits dest: case_ok)

lemma toolCase_known: "t \<in> set toolNames \<Longrightarrow> \<exists>body. toolCase be summ imgs t = Some body"
  by (auto simp: toolNames_def toolCase_def)

lemma toolCase_unknown: "t \<notin> set toolNames \<Longrightarrow> toolCase be summ imgs t = None"
  by (simp add: toolNames_def toolCase_def)

lemma invoke_log: "invoke be a xs w = (r, w') \<Longrightarrow> invoked w' = invoked w @ [(a, xs)]"
  by (auto simp: invoke_def split: prod.splits)

section \<open>Claims about tool execution\<close>

text \<open>
  Claim C6 (as amended). For every tool call whose tool identifier is one of the
  twenty-five operations of the switch, \<open>executeTool\<close> does not raise and returns a
  \<open>ToolResult\<close> for that call: a value returned by the selected case is a result with
  \<open>ok = True\<close>, and whatever the case throws (a rejected backend call, a failed check,
  malformed arguments) becomes a result with \<open>ok = False\<close> whose \<open>result\<close> field is the
  message of the thrown error.
\<close>

theorem executeTool_known_tool_result:
  assumes "tool call \<in> set toolNames"
  shows "\<exists>r body. fst (executeTool be summ call ns imgs mr w) = Some r
           \<and> tool r = tool call \<and> args r = args call
           \<and> toolCase be summ imgs (tool call) = Some body
           \<and> (case fst (body call w) of
                Inr r' \<Rightarrow> r = r' \<and> ok r
              | Inl e \<Rightarrow> \<not> ok r \<and> result r = JStr (message e))"
proof -
  from assms obtain body where b: "toolCase be summ imgs (tool call) = Some body"
    using toolCase_known by blast
  obtain x w' where x: "body call w = (x, w')"
    by (cases "body call w")
  show ?thesis
  proof (cases x)
    case (Inl e)
    with b x show ?thesis by (simp add: executeTool_def)
  next
    case (Inr r')
    with b x toolCase_ok [OF b, of call w r' w'] show ?thesis by (simp add: executeTool_def)
  qed
qed

text \<open>The theorem at a call that the backend rejects: the result is a failure carrying
  the backend's message.\<close>

theorem executeTool_known_tool_result_witness:
  "tool (callOf ''getNamespace'' [(''name'', JStr ''dev'')]) \<in> set toolNames
   \<and> (\<exists>r. fst (executeTool rejectingBackend idSummarizer
                  (callOf ''getNamespace'' [(''name'', JStr ''dev'')]) {''dev''} [] 20 emptyWorld) = Some r
          \<and> \<not> ok r \<and> result r = JStr ''Forbidden'')"
proof -
  have k: "tool (callOf ''getNamespace'' [(''name'', JStr ''dev'')]) \<in> set toolNames"
    by (simp add: callOf_def toolNames_def)
  have c: "toolCase rejectingBackend idSummarizer [] ''getNamespace'' = Some (case_getNamespace rejectingBackend idSummarizer)"
    by (simp add: toolCase_def)
  have f: "fst (case_getNamespace rejectingBackend idSummarizer (callOf ''getNamespace'' [(''name'', JStr ''dev'')]) emptyWorld)
             = Inl (Error ''Forbidden'')"
    by (simp add: case_getNamespace_def callOf_def bindE_def liftE_def getProp_def invoke_def
                  rejectingBackend_def emptyWorld_def)
  from executeTool_known_tool_result [OF k, of rejectingBackend idSummarizer "{''dev''}" "[]" 20 emptyWorld]
  show ?thesis using k c f by (auto simp: callOf_def)
qed

text \<open>
  Claim C6 as stated also covers a tool identifier outside the enumeration. The switch
  has no default branch, so for such a call \<open>executeTool\<close> returns no \<open>ToolResult\<close> at all
  (\<^verbatim>\<open>undefined\<close>): here for \<^verbatim>\<open>deletePod\<close>.
\<close>

theorem executeTool_unknown_tool_counterexample:
  "executeTool acceptingBackend idSummarizer
     (callOf ''deletePod'' [(''namespace'', JStr ''dev''), (''name'', JStr ''web'')])
     {''dev''} [] 20 emptyWorld = (None, emptyWorld)"
  by (simp add: executeTool_def toolCase_def callOf_def)

text \<open>
  Claim C2, evaluated on the code. With the allow-set \<open>{dev, qa}\<close>, a read call and a
  mutating call that target the namespace \<open>prod\<close> both reach the backend, whatever the
  backend is: \<open>executeTool\<close> never reads its \<open>allowedNamespaces\<close> parameter. On a backend
  that accepts, both results have \<open>ok = True\<close>.
\<close>

theorem executeTool_ignores_namespace_allowlist:
  "invoked (snd (executeTool be summ (callOf ''listNamespacedPod'' [(''namespace'', JStr ''prod'')])
                   {''dev'', ''qa''} imgs mr w))
     = invoked w @ [(ListNamespacedPod,
                     [JStr ''prod'', JUndefined, JUndefined, JUndefined, JUndefined, JUndefined, JNum 50])]
   \<and> invoked (snd (executeTool be summ
                   (callOf ''createPod'' [(''namespace'', JStr ''prod''), (''name'', JStr ''web''),
                                          (''image'', JStr ''nginx:latest'')])
                   {''dev'', ''qa''} imgs mr w))
     = invoked w @ [(CreateNamespacedPod,
                     [JStr ''prod'',
                      JObj [(''apiVersion'', JStr ''v1''), (''kind'', JStr ''Pod''),
                            (''metadata'', JObj [(''name'', JStr ''web'')]),
                            (''spec'', JObj [(''restartPolicy'', JStr ''Never''),
                                             (''containers'', JArr [JObj [(''name'', JStr ''main''),
                                                                          (''image'', JStr ''nginx:latest'')]])])]])]
   \<and> map_option ok (fst (executeTool acceptingBackend idSummarizer
                   (callOf ''listNamespacedPod'' [(''namespace'', JStr ''prod'')])
                   {''dev'', ''qa''} [] 20 emptyWorld)) = Some True
   \<and> map_option ok (fst (executeTool acceptingBackend idSummarizer
                   (callOf ''createPod'' [(''namespace'', JStr ''prod''), (''name'', JStr ''web''),
                                          (''image'', JStr ''nginx:latest'')])
                   {''dev'', ''qa''} [] 20 emptyWorld)) = Some True"
  by (simp add: executeTool_def toolCase_def callOf_def case_listNamespaced_def case_createPod_def
                bindE_def liftE_def bindR_def getProp_def destructure_def invoke_def Let_def orElse_def
                okResult_def plainResult_def nameOfBody_def optProp_def
                acceptingBackend_def sampleResponse_def idSummarizer_def emptyWorld_def
           split: prod.splits sum.splits)

text \<open>
  Claim C3, evaluated on the code. With the allowed prefixes \<open>[nginx:]\<close>, a \<^verbatim>\<open>createPod\<close>
  call for the image \<open>redis:latest\<close> reaches the backend with that image, whatever the
  backend is, and succeeds on a backend that accepts. The sibling case
  \<^verbatim>\<open>updateDeployment\<close> does enforce the prefixes: a patch that sets the same image fails
  with \<open>Image not allowed\<close> before any invocation.
\<close>

theorem createPod_ignores_image_allowlist:
  "invoked (snd (executeTool be summ
                   (callOf ''createPod'' [(''namespace'', JStr ''dev''), (''name'', JStr ''cache''),
                                          (''image'', JStr ''redis:latest'')])
                   nss [''nginx:''] mr w))
     = invoked w @ [(CreateNamespacedPod,
                     [JStr ''dev'',
                      JObj [(''apiVersion'', JStr ''v1''), (''kind'', JStr ''Pod''),
                            (''metadata'', JObj [(''name'', JStr ''cache'')]),
                            (''spec'', JObj [(''restartPolicy'', JStr ''Never''),
                                             (''containers'', JArr [JObj [(''name'', JStr ''main''),
                                                                          (''image'', JStr ''redis:latest'')]])])]])]
   \<and> map_option ok (fst (executeTool acceptingBackend idSummarizer
                   (callOf ''createPod'' [(''namespace'', JStr ''dev''), (''name'', JStr ''cache''),
                                          (''image'', JStr ''redis:latest'')])
                   {''dev''} [''nginx:''] 20 emptyWorld)) = Some True
   \<and> executeTool be summ
        (callOf ''updateDeployment''
           [(''namespace'', JStr ''dev''), (''name'', JStr ''cache''),
            (''patch'', JObj [(''spec'', JObj [(''template'', JObj [(''spec'', JObj
                [(''containers'', JArr [JObj [(''name'', JStr ''main''),
                                              (''image'', JStr ''redis:latest'')]])])])])])])
        nss [''nginx:''] mr w
     = (Some \<lparr>tool = ''updateDeployment'',
              args = JObj [(''namespace'', JStr ''dev''), (''name'', JStr ''cache''),
                (''patch'', JObj [(''spec'', JObj [(''template'', JObj [(''spec'', JObj
                   [(''containers'', JArr [JObj [(''name'', JStr ''main''),
                                                 (''image'', JStr ''redis:latest'')]])])])])])],
              ok = False, result = JStr ''Image not allowed''\<rparr>, w)"
  by (simp add: executeTool_def toolCase_def callOf_def case_createPod_def case_updateDeployment_def
                bindE_def liftE_def bindR_def throwE_def getProp_def destructure_def invoke_def Let_def
                orElse_def okResult_def plainResult_def nameOfBody_def optProp_def
                extractImagesFromDeploymentPatch_def imageNotAllowed_def
                acceptingBackend_def sampleResponse_def idSummarizer_def emptyWorld_def
           split: prod.splits sum.splits)

section \<open>What a tool execution can change\<close>

lemma logExtends_refl [simp]: "logExtends P w w"
  by (simp add: logExtends_def)

lemma logExtends_trans: "logExtends P w w1 \<Longrightarrow> logExtends P w1 w2 \<Longrightarrow> logExtends P w w2"
  by (auto simp: logExtends_def)

lemma logExtends_mono: "(\<And>a. P a \<Longrightarrow> Q a) \<Longrightarrow> logExtends P w w' \<Longrightarrow> logExtends Q w w'"
  by (auto simp: logExtends_def list_all_iff)

lemma onlyInvokes_refl [simp]: "onlyInvokes P w w"
  by (simp add: onlyInvokes_def)

lemma onlyInvokes_trans: "onlyInvokes P w w1 \<Longrightarrow> onlyInvokes P w1 w2 \<Longrightarrow> onlyInvokes P w w2"
  by (auto simp: onlyInvokes_def intro: logExtends_trans)

lemma ioOnly_bindE: "ioOnly P m \<Longrightarrow> (\<And>x. ioOnly P (f x)) \<Longrightarrow> ioOnly P (bindE m f)"
  unfolding ioOnly_def bindE_def
proof
  fix w
  assume m: "\<forall>w. onlyInvokes P w (snd (m w))" and f: "\<And>x. \<forall>w. onlyInvokes P w (snd (f x w))"
  obtain r w1 where mw: "m w = (r, w1)" by (cases "m w")
  from m have 1: "onlyInvokes P w w1" using mw by (metis snd_conv)
  show "onlyInvokes P w (snd (case m w of (Inl e, s') \<Rightarrow> (Inl e, s') | (Inr x, s') \<Rightarrow> f x s'))"
  proof (cases r)
    case (Inl e) with mw 1 show ?thesis by simp
  next
    case (Inr x)
    from f have "onlyInvokes P w1 (snd (f x w1))" by blast
    with 1 Inr mw show ?thesis by (auto intro: onlyInvokes_trans)
  qed
qed

lemma ioOnly_liftE [simp]: "ioOnly P (liftE x)"
  by (simp add: ioOnly_def liftE_def)

lemma ioOnly_throwE [simp]: "ioOnly P (throwE e)"
  by (simp add: ioOnly_def throwE_def)

lemma ioOnly_invoke: "P a \<Longrightarrow> ioOnly P (invoke be a xs)"
  by (auto simp: ioOnly_def invoke_def onlyInvokes_def logExtends_def split: prod.splits)

lemma ioOnly_if: "(c \<Longrightarrow> ioOnly P a) \<Longrightarrow> (\<not> c \<Longrightarrow> ioOnly P b) \<Longrightarrow> ioOnly P (if c then a else b)"
  by simp

lemma ioOnly_prod: "(\<And>a b c. ioOnly P (f a b c)) \<Longrightarrow> ioOnly P (case x of (a, b, c) \<Rightarrow> f a b c)"
  by (cases x) simp

lemmas ioOnly_intros = ioOnly_bindE ioOnly_liftE ioOnly_throwE ioOnly_invoke ioOnly_if ioOnly_prod

lemma case_listNamespaces_only:
  "P ListNamespace \<Longrightarrow> ioOnly P (case_listNamespaces be summ call)"
  unfolding case_listNamespaces_def  by (intro ioOnly_intros)

lemma case_listNamespaced_only:
  "P m \<Longrightarrow> ioOnly P (case_listNamespaced m k be summ call)"
  unfolding case_listNamespaced_def Let_def by (intro ioOnly_intros)

lemma case_listNamespacedEvent_only:
  "P ListNamespacedEvent \<Longrightarrow> ioOnly P (case_listNamespacedEvent be summ call)"
  unfolding case_listNamespacedEvent_def Let_def by (intro ioOnly_intros)

lemma case_readNamespaced_only:
  "P m \<Longrightarrow> ioOnly P (case_readNamespaced m be summ call)"
  unfolding case_readNamespaced_def Let_def by (intro ioOnly_intros)

lemma case_listIstioObject_only:
  "P ListNamespacedCustomObject \<Longrightarrow> ioOnly P (case_listIstioObject be summ call)"
  unfolding case_listIstioObject_def Let_def by (intro ioOnly_intros)

lemma case_getIstioObject_only:
  "P GetNamespacedCustomObject \<Longrightarrow> ioOnly P (case_getIstioObject be summ call)"
  unfolding case_getIstioObject_def Let_def by (intro ioOnly_intros)

lemma case_getNamespace_only:
  "P ReadNamespace \<Longrightarrow> ioOnly P (case_getNamespace be summ call)"
  unfolding case_getNamespace_def  by (intro ioOnly_intros)

lemma case_createNamespace_only:
  "P CreateNamespace \<Longrightarrow> ioOnly P (case_createNamespace be summ call)"
  unfolding case_createNamespace_def  by (intro ioOnly_intros)

lemma case_createPod_only:
  "P CreateNamespacedPod \<Longrightarrow> ioOnly P (case_createPod be summ call)"
  unfolding case_createPod_def Let_def by (intro ioOnly_intros)

lemma case_createDeployment_only:
  "P CreateNamespacedDeployment \<Longrightarrow> ioOnly P (case_createDeployment be summ call)"
  unfolding case_createDeployment_def Let_def by (intro ioOnly_intros)

lemma case_updateDeployment_only:
  "P PatchNamespacedDeployment \<Longrightarrow> ioOnly P (case_updateDeployment imgs be summ call)"
  unfolding case_updateDeployment_def Let_def by (intro ioOnly_intros)

lemma case_createIstioObject_only:
  "P CreateNamespacedCustomObject \<Longrightarrow> ioOnly P (case_createIstioObject be summ call)"
  unfolding case_createIstioObject_def Let_def by (intro ioOnly_intros)

lemma case_updateIstioObject_only:
  "P PatchNamespacedCustomObject \<Longrightarrow> ioOnly P (case_updateIstioObject be summ call)"
  unfolding case_updateIstioObject_def Let_def by (intro ioOnly_intros)

lemma case_createService_only:
  "P CreateNamespacedService \<Longrightarrow> ioOnly P (case_createService be summ call)"
  unfolding case_createService_def Let_def by (intro ioOnly_intros)

lemma case_createConfigMap_only:
  "P CreateNamespacedConfigMap \<Longrightarrow> ioOnly P (case_createConfigMap be summ call)"
  unfolding case_createConfigMap_def Let_def by (intro ioOnly_intros)

lemma case_updateConfigMap_only:
  "P ReadNamespacedConfigMap \<Longrightarrow> P ReplaceNamespacedConfigMap \<Longrightarrow> ioOnly P (case_updateConfigMap be summ call)"
  unfolding case_updateConfigMap_def Let_def by (intro ioOnly_intros)

lemma case_updateService_only:
  "P ReadNamespacedService \<Longrightarrow> P ReplaceNamespacedService \<Longrightarrow> ioOnly P (case_updateService be summ call)"
  unfolding case_updateService_def Let_def by (intro ioOnly_intros)

lemma case_updateDeploymentImage_only:
  "P ReadNamespacedDeployment \<Longrightarrow> P ReplaceNamespacedDeployment \<Longrightarrow> ioOnly P (case_updateDeploymentImage be summ call)"
  unfolding case_updateDeploymentImage_def Let_def by (intro ioOnly_intros)

lemma case_deleteDeployment_only:
  "P DeleteNamespacedDeployment \<Longrightarrow> ioOnly P (case_deleteDeployment be summ call)"
  unfolding case_deleteDeployment_def Let_def by (intro ioOnly_intros)

lemma case_scaleDeployment_only:
  "P ReadNamespacedDeployment \<Longrightarrow> P ReplaceNamespacedDeployment \<Longrightarrow> ioOnly P (case_scaleDeployment be summ call)"
  unfolding case_scaleDeployment_def Let_def by (intro ioOnly_intros)

lemma case_getDeploymentStatus_only:
  "P ReadNamespacedDeployment \<Longrightarrow> ioOnly P (case_getDeploymentStatus be summ call)"
  unfolding case_getDeploymentStatus_def  by (intro ioOnly_intros)

lemmas case_only =
  case_listNamespaces_only case_listNamespaced_only case_listNamespacedEvent_only
  case_readNamespaced_only case_listIstioObject_only case_getIstioObject_only
  case_getNamespace_only case_createNamespace_only case_createPod_only
  case_createDeployment_only case_updateDeployment_only case_createIstioObject_only
  case_updateIstioObject_only case_createService_only case_createConfigMap_only
  case_updateConfigMap_only case_updateService_only case_updateDeploymentImage_only
  case_deleteDeployment_only case_scaleDeployment_only case_getDeploymentStatus_only

text \<open>Any selected case changes only the cluster and the log; a case selected for a tool
  that the classifier calls read-only invokes reading methods only.\<close>

lemma toolCase_only:
  assumes "toolCase be summ imgs t = Some body"
  shows "ioOnly anyApi (body call)"
  using assms unfolding toolCase_def
  by (auto split: if_splits intro!: case_only simp: anyApi_def)

lemma toolCase_readOnly:
  assumes "toolCase be summ imgs t = Some body" and "\<not> isMutating t"
  shows "ioOnly readOnly (body call)"
  using assms unfolding toolCase_def isMutating_def
  by (auto split: if_splits intro!: case_only simp: readOnly_def)

lemma executeTool_only:
  "onlyInvokes anyApi w (snd (executeTool be summ call nss imgs mr w))"
proof (cases "toolCase be summ imgs (tool call)")
  case None
  then show ?thesis by (simp add: executeTool_def)
next
  case (Some body)
  from toolCase_only [OF Some] have "onlyInvokes anyApi w (snd (body call w))"
    by (simp add: ioOnly_def)
  with Some show ?thesis
    by (auto simp: executeTool_def split: prod.splits sum.splits)
qed

lemma executeTool_readOnly:
  assumes "\<not> isMutating (tool call)"
  shows "onlyInvokes readOnly w (snd (executeTool be summ call nss imgs mr w))"
proof (cases "toolCase be summ imgs (tool call)")
  case None
  then show ?thesis by (simp add: executeTool_def)
next
  case (Some body)
  from toolCase_readOnly [OF Some assms] have "onlyInvokes readOnly w (snd (body call w))"
    by (simp add: ioOnly_def)
  with Some show ?thesis
    by (auto simp: executeTool_def split: prod.splits sum.splits)
qed

lemma executeReadonlyCalls_only:
  "onlyInvokes anyApi w (snd (executeReadonlyCalls d calls cfg rs w))"
proof (induction calls arbitrary: rs w)
  case Nil
  then show ?case by simp
next
  case (Cons call calls)
  obtain r w1 where e: "executeTool (backend d) (summarizeK8sList d) call
      (allowedNamespaces cfg) (allowedImages cfg) (maxReplicas cfg) w = (r, w1)"
    by (cases "executeTool (backend d) (summarizeK8sList d) call
      (allowedNamespaces cfg) (allowedImages cfg) (maxReplicas cfg) w")
  from executeTool_only [of w "backend d" "summarizeK8sList d" call
      "allowedNamespaces cfg" "allowedImages cfg" "maxReplicas cfg"] e
  have 1: "onlyInvokes anyApi w w1" by simp
  from Cons.IH [of w1 "rs @ [r]"] 1 e show ?case
    by (auto intro: onlyInvokes_trans)
qed

lemma executeReadonlyCalls_readOnly:
  assumes "list_all (\<lambda>c. \<not> isMutating (tool c)) calls"
  shows "onlyInvokes readOnly w (snd (executeReadonlyCalls d calls cfg rs w))"
  using assms
proof (induction calls arbitrary: rs w)
  case Nil
  then show ?case by simp
next
  case (Cons call calls)
  obtain r w1 where e: "executeTool (backend d) (summarizeK8sList d) call
      (allowedNamespaces cfg) (allowedImages cfg) (maxReplicas cfg) w = (r, w1)"
    by (cases "executeTool (backend d) (summarizeK8sList d) call
      (allowedNamespaces cfg) (allowedImages cfg) (maxReplicas cfg) w")
  from Cons.prems have nm: "\<not> isMutating (tool call)" and rest: "list_all (\<lambda>c. \<not> isMutating (tool c)) calls"
    by simp_all
  from executeTool_readOnly [OF nm, of w "backend d" "summarizeK8sList d"
      "allowedNamespaces cfg" "allowedImages cfg" "maxReplicas cfg"] e
  have 1: "onlyInvokes readOnly w w1" by simp
  from Cons.IH [OF rest, of w1 "rs @ [r]"] 1 e show ?case
    by (auto intro: onlyInvokes_trans)
qed

text \<open>The history after a batch: the old history followed by one outcome per call.\<close>

lemma executeReadonlyCalls_results:
  "\<exists>xs. fst (executeReadonlyCalls d calls cfg rs w) = rs @ xs \<and> length xs = length calls"
proof (induction calls arbitrary: rs w)
  case Nil
  then show ?case by simp
next
  case (Cons call calls)
  obtain r w1 where e: "executeTool (backend d) (summarizeK8sList d) call
      (allowedNamespaces cfg) (allowedImages cfg) (maxReplicas cfg) w = (r, w1)"
    by (cases "executeTool (backend d) (summarizeK8sList d) call
      (allowedNamespaces cfg) (allowedImages cfg) (maxReplicas cfg) w")
  from Cons.IH [of "rs @ [r]" w1] obtain xs where
    "fst (executeReadonlyCalls d calls cfg (rs @ [r]) w1) = (rs @ [r]) @ xs" "length xs = length calls"
    by blast
  with e show ?case by (intro exI [of _ "r # xs"]) simp
qed

section \<open>The planning loop, case by case\<close>

lemma planWithLm_world:
  "planWithLm d u cfg rs w = (r, w1) \<Longrightarrow> w1 = w\<lparr>lmUses := lmUses w + 1, planCalls := planCalls w + 1\<rparr>"
  by (auto simp: planWithLm_def Let_def split: lmReply.splits if_splits sum.splits)

lemma formatWithLm_world:
  "formatWithLm d u s rs w = (r, w1) \<Longrightarrow>
     invoked w1 = invoked w \<and> cluster w1 = cluster w \<and> pendingBySession w1 = pendingBySession w \<and>
     planCalls w1 = planCalls w \<and> lmUses w1 = lmUses w + 1"
  by (auto simp: formatWithLm_def Let_def split: lmReply.splits)

lemma promptForConfirmation_world:
  "promptForConfirmation p calls w = (r, w1) \<Longrightarrow>
     invoked w1 = invoked w \<and> cluster w1 = cluster w \<and> pendingBySession w1 = pendingBySession w \<and>
     planCalls w1 = planCalls w \<and> lmUses w1 = lmUses w"
  by (auto simp: promptForConfirmation_def split: if_splits)

lemma agentLoop_stop:
  "\<not> i < MAX_ITERATIONS \<Longrightarrow> agentLoop d u cfg k i rs s w = (Inr (LoopEnd i rs s), w)"
  by (subst agentLoop.simps) simp

lemma agentLoop_planFails:
  "i < MAX_ITERATIONS \<Longrightarrow> planWithLm d u cfg rs w = (Inl e, w1) \<Longrightarrow>
   agentLoop d u cfg k i rs s w = (Inr Returned, w1\<lparr>stream := stream w1 @ [FailedToPlan (message e)]\<rparr>)"
  by (subst agentLoop.simps) simp

lemma agentLoop_emptyDone:
  "i < MAX_ITERATIONS \<Longrightarrow> planWithLm d u cfg rs w = (Inr p, w1) \<Longrightarrow> toolCalls p = [] \<Longrightarrow> isDone p \<Longrightarrow>
   agentLoop d u cfg k i rs s w = (Inr (LoopEnd (i + 1) rs (summary p)), w1)"
  by (subst agentLoop.simps) simp

lemma agentLoop_mutating:
  "i < MAX_ITERATIONS \<Longrightarrow> planWithLm d u cfg rs w = (Inr p, w1) \<Longrightarrow>
   filter (\<lambda>c. isMutating (tool c)) (toolCalls p) \<noteq> [] \<Longrightarrow>
   executeReadonlyCalls d (filter (\<lambda>c. \<not> isMutating (tool c)) (toolCalls p)) cfg rs w1 = (rs', w2) \<Longrightarrow>
   agentLoop d u cfg k i rs s w =
     (case promptForConfirmation p (filter (\<lambda>c. isMutating (tool c)) (toolCalls p))
             (queuePendingActions k u p (filter (\<lambda>c. isMutating (tool c)) (toolCalls p)) rs' w2) of
        (Inl e, w3) \<Rightarrow> (Inl e, w3)
      | (Inr x, w3) \<Rightarrow> (Inr Returned, w3))"
  by (subst agentLoop.simps) (auto simp: splitToolCalls_def)

lemma agentLoop_done:
  "i < MAX_ITERATIONS \<Longrightarrow> planWithLm d u cfg rs w = (Inr p, w1) \<Longrightarrow> toolCalls p \<noteq> [] \<Longrightarrow>
   filter (\<lambda>c. isMutating (tool c)) (toolCalls p) = [] \<Longrightarrow> isDone p \<Longrightarrow>
   executeReadonlyCalls d (filter (\<lambda>c. \<not> isMutating (tool c)) (toolCalls p)) cfg rs w1 = (rs', w2) \<Longrightarrow>
   agentLoop d u cfg k i rs s w = (Inr (LoopEnd (i + 1) rs' (summary p)), w2)"
  by (subst agentLoop.simps) (auto simp: splitToolCalls_def)

lemma agentLoop_continue:
  "i < MAX_ITERATIONS \<Longrightarrow> planWithLm d u cfg rs w = (Inr p, w1) \<Longrightarrow>
   filter (\<lambda>c. isMutating (tool c)) (toolCalls p) = [] \<Longrightarrow> \<not> isDone p \<Longrightarrow>
   executeReadonlyCalls d (filter (\<lambda>c. \<not> isMutating (tool c)) (toolCalls p)) cfg rs w1 = (rs', w2) \<Longrightarrow>
   agentLoop d u cfg k i rs s w = agentLoop d u cfg k (i + 1) rs' (summary p) w2"
  by (subst agentLoop.simps) (auto simp: splitToolCalls_def)

lemma agentLoop_cases:
  obtains
    (stop) "\<not> i < MAX_ITERATIONS"
  | (planFails) e w1 where "i < MAX_ITERATIONS" "planWithLm d u cfg rs w = (Inl e, w1)"
  | (emptyDone) p w1 where "i < MAX_ITERATIONS" "planWithLm d u cfg rs w = (Inr p, w1)"
      "toolCalls p = []" "isDone p"
  | (mutating) p w1 rs' w2 where "i < MAX_ITERATIONS" "planWithLm d u cfg rs w = (Inr p, w1)"
      "filter (\<lambda>c. isMutating (tool c)) (toolCalls p) \<noteq> []"
      "executeReadonlyCalls d (filter (\<lambda>c. \<not> isMutating (tool c)) (toolCalls p)) cfg rs w1 = (rs', w2)"
  | (finished) p w1 rs' w2 where "i < MAX_ITERATIONS" "planWithLm d u cfg rs w = (Inr p, w1)"
      "toolCalls p \<noteq> []" "filter (\<lambda>c. isMutating (tool c)) (toolCalls p) = []" "isDone p"
      "executeReadonlyCalls d (filter (\<lambda>c. \<not> isMutating (tool c)) (toolCalls p)) cfg rs w1 = (rs', w2)"
  | (continue) p w1 rs' w2 where "i < MAX_ITERATIONS" "planWithLm d u cfg rs w = (Inr p, w1)"
      "filter (\<lambda>c. isMutating (tool c)) (toolCalls p) = []" "\<not> isDone p"
      "executeReadonlyCalls d (filter (\<lambda>c. \<not> isMutating (tool c)) (toolCalls p)) cfg rs w1 = (rs', w2)"
proof (cases "i < MAX_ITERATIONS")
  case False
  then show ?thesis by (rule stop)
next
  case lt: True
  obtain r w1 where pl: "planWithLm d u cfg rs w = (r, w1)" by (cases "planWithLm d u cfg rs w")
  show ?thesis
  proof (cases r)
    case (Inl e)
    with lt pl show ?thesis by (auto intro: planFails)
  next
    case (Inr p)
    obtain rs' w2 where ex:
      "executeReadonlyCalls d (filter (\<lambda>c. \<not> isMutating (tool c)) (toolCalls p)) cfg rs w1 = (rs', w2)"
      by (cases "executeReadonlyCalls d (filter (\<lambda>c. \<not> isMutating (tool c)) (toolCalls p)) cfg rs w1")
    show ?thesis
    proof (cases "filter (\<lambda>c. isMutating (tool c)) (toolCalls p) = []")
      case False
      with lt pl Inr ex show ?thesis by (auto intro: mutating)
    next
      case nomut: True
      show ?thesis
      proof (cases "isDone p")
        case False
        with lt pl Inr ex nomut show ?thesis by (auto intro: continue)
      next
        case True
        with lt pl Inr ex nomut show ?thesis
          by (cases "toolCalls p = []") (auto intro: emptyDone finished)
      qed
    qed
  qed
qed

section \<open>Properties of the planning loop\<close>

lemma filter_readonly_all: "list_all (\<lambda>c. \<not> isMutating (tool c)) (filter (\<lambda>c. \<not> isMutating (tool c)) cs)"
  by (simp add: list_all_iff)

lemma exec_filtered_readOnly:
  "executeReadonlyCalls d (filter (\<lambda>c. \<not> isMutating (tool c)) cs) cfg rs w1 = (rs', w2) \<Longrightarrow>
   onlyInvokes readOnly w1 w2"
  using executeReadonlyCalls_readOnly [OF filter_readonly_all, of w1 d cs cfg rs] by simp


lemma agentLoop_planCalls:
  "planCalls (snd (agentLoop d u cfg k i rs s w)) \<le> planCalls w + (MAX_ITERATIONS - i) \<and>
   (\<forall>n rs' s'. fst (agentLoop d u cfg k i rs s w) = Inr (LoopEnd n rs' s') \<longrightarrow>
       i \<le> n \<and> (i \<le> MAX_ITERATIONS \<longrightarrow> n \<le> MAX_ITERATIONS) \<and>
       planCalls (snd (agentLoop d u cfg k i rs s w)) = planCalls w + (n - i))"
proof (induction m \<equiv> "MAX_ITERATIONS - i" arbitrary: i rs s w)
  case 0
  then have "\<not> i < MAX_ITERATIONS" by simp
  then show ?case by (simp add: agentLoop_stop)
next
  case (Suc m)
  show ?case
  proof (cases rule: agentLoop_cases [where i=i and d=d and u=u and cfg=cfg and rs=rs and w=w])
    case stop
    then show ?thesis by (simp add: agentLoop_stop)
  next
    case (planFails e w1)
    then show ?thesis
      by (auto simp: agentLoop_planFails dest!: planWithLm_world)
  next
    case (emptyDone p w1)
    then show ?thesis
      by (auto simp: agentLoop_emptyDone dest!: planWithLm_world)
  next
    case (mutating p w1 rs' w2)
    from mutating(2) have 1: "planCalls w1 = planCalls w + 1" by (auto dest!: planWithLm_world)
    from exec_filtered_readOnly [OF mutating(4)] have 2: "planCalls w2 = planCalls w1"
      by (simp add: onlyInvokes_def)
    obtain r w3 where pr: "promptForConfirmation p (filter (\<lambda>c. isMutating (tool c)) (toolCalls p))
             (queuePendingActions k u p (filter (\<lambda>c. isMutating (tool c)) (toolCalls p)) rs' w2) = (r, w3)"
      by (cases "promptForConfirmation p (filter (\<lambda>c. isMutating (tool c)) (toolCalls p))
             (queuePendingActions k u p (filter (\<lambda>c. isMutating (tool c)) (toolCalls p)) rs' w2)")
    from promptForConfirmation_world [OF pr] have 3: "planCalls w3 = planCalls w2"
      by (simp add: queuePendingActions_def)
    from 1 2 3 mutating(1) pr show ?thesis
      by (auto simp: agentLoop_mutating [OF mutating] split: sum.splits)
  next
    case (finished p w1 rs' w2)
    from finished(2) have 1: "planCalls w1 = planCalls w + 1" by (auto dest!: planWithLm_world)
    from exec_filtered_readOnly [OF finished(6)] have 2: "planCalls w2 = planCalls w1"
      by (simp add: onlyInvokes_def)
    from 1 2 finished(1) show ?thesis by (simp add: agentLoop_done [OF finished])
  next
    case (continue p w1 rs' w2)
    from continue(2) have 1: "planCalls w1 = planCalls w + 1" by (auto dest!: planWithLm_world)
    from exec_filtered_readOnly [OF continue(5)] have 2: "planCalls w2 = planCalls w1"
      by (simp add: onlyInvokes_def)
    from Suc(2) continue(1) have "m = MAX_ITERATIONS - (i + 1)" by simp
    from Suc(1) [OF this, of rs' "summary p" w2] 1 2 continue(1) show ?thesis
      by (auto simp: agentLoop_continue [OF continue])
  qed
qed

section \<open>Properties of a turn\<close>

lemma agentLoop_pending:
  "(pendingBySession (snd (agentLoop d u cfg k i rs s w)) = pendingBySession w \<or>
    (\<exists>pa. pendingBySession (snd (agentLoop d u cfg k i rs s w)) = (pendingBySession w)(k \<mapsto> pa) \<and>
          originalUserText pa = u \<and> pendingToolCalls pa \<noteq> [] \<and>
          list_all (\<lambda>c. isMutating (tool c)) (pendingToolCalls pa))) \<and>
   (\<forall>n rs' s'. fst (agentLoop d u cfg k i rs s w) = Inr (LoopEnd n rs' s') \<longrightarrow>
       pendingBySession (snd (agentLoop d u cfg k i rs s w)) = pendingBySession w)"
proof (induction m \<equiv> "MAX_ITERATIONS - i" arbitrary: i rs s w)
  case 0
  then have "\<not> i < MAX_ITERATIONS" by simp
  then show ?case by (simp add: agentLoop_stop)
next
  case (Suc m)
  show ?case
  proof (cases rule: agentLoop_cases [where i=i and d=d and u=u and cfg=cfg and rs=rs and w=w])
    case stop
    then show ?thesis by (simp add: agentLoop_stop)
  next
    case (planFails e w1)
    then show ?thesis
      by (auto simp: agentLoop_planFails dest!: planWithLm_world)
  next
    case (emptyDone p w1)
    then show ?thesis
      by (auto simp: agentLoop_emptyDone dest!: planWithLm_world)
  next
    case (mutating p w1 rs' w2)
    from mutating(2) have 1: "pendingBySession w1 = pendingBySession w" by (auto dest!: planWithLm_world)
    from exec_filtered_readOnly [OF mutating(4)] have 2: "pendingBySession w2 = pendingBySession w1"
      by (simp add: onlyInvokes_def)
    obtain r w3 where pr: "promptForConfirmation p (filter (\<lambda>c. isMutating (tool c)) (toolCalls p))
             (queuePendingActions k u p (filter (\<lambda>c. isMutating (tool c)) (toolCalls p)) rs' w2) = (r, w3)"
      by (cases "promptForConfirmation p (filter (\<lambda>c. isMutating (tool c)) (toolCalls p))
             (queuePendingActions k u p (filter (\<lambda>c. isMutating (tool c)) (toolCalls p)) rs' w2)")
    from promptForConfirmation_world [OF pr] 1 2
    have 3: "pendingBySession w3 = (pendingBySession w)(k \<mapsto>
        \<lparr>originalUserText = u, plan = p,
         pendingToolCalls = filter (\<lambda>c. isMutating (tool c)) (toolCalls p), priorResults = rs'\<rparr>)"
      by (simp add: queuePendingActions_def)
    have "snd (agentLoop d u cfg k i rs s w) = w3" "\<And>n rs' s'. fst (agentLoop d u cfg k i rs s w) \<noteq> Inr (LoopEnd n rs' s')"
      using pr by (auto simp: agentLoop_mutating [OF mutating] split: sum.splits)
    with 3 mutating(3) show ?thesis
      by (auto simp: list_all_iff)
  next
    case (finished p w1 rs' w2)
    from finished(2) have 1: "pendingBySession w1 = pendingBySession w" by (auto dest!: planWithLm_world)
    from exec_filtered_readOnly [OF finished(6)] have 2: "pendingBySession w2 = pendingBySession w1"
      by (simp add: onlyInvokes_def)
    from 1 2 show ?thesis by (simp add: agentLoop_done [OF finished])
  next
    case (continue p w1 rs' w2)
    from continue(2) have 1: "pendingBySession w1 = pendingBySession w" by (auto dest!: planWithLm_world)
    from exec_filtered_readOnly [OF continue(5)] have 2: "pendingBySession w2 = pendingBySession w1"
      by (simp add: onlyInvokes_def)
    from Suc(2) continue(1) have "m = MAX_ITERATIONS - (i + 1)" by simp
    from Suc(1) [OF this, of rs' "summary p" w2] 1 2 show ?thesis
      by (simp add: agentLoop_continue [OF continue])
  qed
qed


lemma runAgentLoop_planCalls:
  "planCalls (snd (runAgentLoop d u cfg k init w)) \<le> planCalls w + MAX_ITERATIONS"
proof -
  obtain r w1 where a: "agentLoop d u cfg k 0 init [] w = (r, w1)"
    by (cases "agentLoop d u cfg k 0 init [] w")
  from agentLoop_planCalls [of d u cfg k 0 init "[]" w] a
  have 1: "planCalls w1 \<le> planCalls w + MAX_ITERATIONS" by simp
  have "planCalls (snd (runAgentLoop d u cfg k init w)) = planCalls w1"
    using a by (auto simp: runAgentLoop_def Let_def split: sum.splits loopExit.splits prod.splits
                     dest!: formatWithLm_world)
  with 1 show ?thesis by simp
qed

lemma runAgentLoop_pending:
  "pendingBySession (snd (runAgentLoop d u cfg k init w)) = pendingBySession w \<or>
    (\<exists>pa. pendingBySession (snd (runAgentLoop d u cfg k init w)) = (pendingBySession w)(k \<mapsto> pa) \<and>
          originalUserText pa = u \<and> pendingToolCalls pa \<noteq> [] \<and>
          list_all (\<lambda>c. isMutating (tool c)) (pendingToolCalls pa))"
proof -
  obtain r w1 where a: "agentLoop d u cfg k 0 init [] w = (r, w1)"
    by (cases "agentLoop d u cfg k 0 init [] w")
  have "pendingBySession (snd (runAgentLoop d u cfg k init w)) = pendingBySession w1"
    using a by (auto simp: runAgentLoop_def Let_def split: sum.splits loopExit.splits prod.splits
                     dest!: formatWithLm_world)
  with agentLoop_pending [of d u cfg k 0 init "[]" w] a show ?thesis by simp
qed

lemma handlePendingAction_not_affirmative:
  "\<not> affirmative t \<Longrightarrow> invoked (snd (handlePendingAction d t pa k cfg w)) = invoked w"
  by (simp add: handlePendingAction_def)


section \<open>Properties of a batch of executions\<close>

lemma executeReadonlyCalls_append:
  "executeReadonlyCalls d (xs @ ys) cfg rs w =
     (case executeReadonlyCalls d xs cfg rs w of (rs1, w1) \<Rightarrow> executeReadonlyCalls d ys cfg rs1 w1)"
  by (induction xs arbitrary: rs w) (auto split: prod.splits)

lemma executeReadonlyCalls_nth:
  assumes "j < length calls"
  shows "fst (executeReadonlyCalls d calls cfg rs w) ! (length rs + j) =
           fst (executeTool (backend d) (summarizeK8sList d) (calls ! j)
                  (allowedNamespaces cfg) (allowedImages cfg) (maxReplicas cfg)
                  (snd (executeReadonlyCalls d (take j calls) cfg rs w)))"
proof -
  obtain rs1 w1 where a: "executeReadonlyCalls d (take j calls) cfg rs w = (rs1, w1)"
    by (cases "executeReadonlyCalls d (take j calls) cfg rs w")
  obtain r w2 where b: "executeTool (backend d) (summarizeK8sList d) (calls ! j)
                  (allowedNamespaces cfg) (allowedImages cfg) (maxReplicas cfg) w1 = (r, w2)"
    by (cases "executeTool (backend d) (summarizeK8sList d) (calls ! j)
                  (allowedNamespaces cfg) (allowedImages cfg) (maxReplicas cfg) w1")
  from executeReadonlyCalls_results [of d "take j calls" cfg rs w] a assms
  obtain xs where xs: "rs1 = rs @ xs" "length xs = j" by auto
  from executeReadonlyCalls_results [of d "drop (Suc j) calls" cfg "rs1 @ [r]" w2]
  obtain ys where ys: "fst (executeReadonlyCalls d (drop (Suc j) calls) cfg (rs1 @ [r]) w2) = (rs1 @ [r]) @ ys"
    by blast
  have "calls = take j calls @ (calls ! j) # drop (Suc j) calls"
    using assms by (simp add: id_take_nth_drop)
  then have "executeReadonlyCalls d calls cfg rs w =
      executeReadonlyCalls d (take j calls @ (calls ! j) # drop (Suc j) calls) cfg rs w" by simp
  also have "\<dots> = executeReadonlyCalls d (drop (Suc j) calls) cfg (rs1 @ [r]) w2"
    using a b by (simp add: executeReadonlyCalls_append)
  finally have "fst (executeReadonlyCalls d calls cfg rs w) = (rs1 @ [r]) @ ys"
    using ys by simp
  with xs a b show ?thesis by (simp add: nth_append)
qed



section \<open>Suspension and cancellation\<close>




section \<open>Batches as folds, and the states of the loop\<close>

lemma worldAfterCalls_Cons:
  "worldAfterCalls d cfg (c # cs) w = worldAfterCalls d cfg cs (execStep d cfg w c)"
  by (simp add: worldAfterCalls_def)

lemma outcomeOf_0: "outcomeOf d cfg (c # cs) w 0 =
   fst (executeTool (backend d) (summarizeK8sList d) c
            (allowedNamespaces cfg) (allowedImages cfg) (maxReplicas cfg) w)"
  by (simp add: outcomeOf_def worldAfterCalls_def)

lemma outcomeOf_Suc: "outcomeOf d cfg (c # cs) w (Suc j) = outcomeOf d cfg cs (execStep d cfg w c) j"
  by (simp add: outcomeOf_def worldAfterCalls_def)

lemma executeReadonlyCalls_fold:
  "executeReadonlyCalls d calls cfg rs w =
     (rs @ map (outcomeOf d cfg calls w) [0 ..< length calls], worldAfterCalls d cfg calls w)"
proof (induction calls arbitrary: rs w)
  case Nil
  then show ?case by (simp add: worldAfterCalls_def)
next
  case (Cons c cs)
  obtain r w1 where e: "executeTool (backend d) (summarizeK8sList d) c
      (allowedNamespaces cfg) (allowedImages cfg) (maxReplicas cfg) w = (r, w1)"
    by (cases "executeTool (backend d) (summarizeK8sList d) c
      (allowedNamespaces cfg) (allowedImages cfg) (maxReplicas cfg) w")
  have s: "execStep d cfg w c = w1" using e by (simp add: execStep_def)
  have "map (outcomeOf d cfg (c # cs) w) [0 ..< length (c # cs)]
          = outcomeOf d cfg (c # cs) w 0 # map (outcomeOf d cfg (c # cs) w \<circ> Suc) [0 ..< length cs]"
    by (simp add: upt_conv_Cons map_Suc_upt [symmetric] del: upt_Suc)
  also have "\<dots> = r # map (outcomeOf d cfg cs w1) [0 ..< length cs]"
    using e s by (simp add: outcomeOf_0 outcomeOf_Suc comp_def)
  finally have m: "map (outcomeOf d cfg (c # cs) w) [0 ..< length (c # cs)]
          = r # map (outcomeOf d cfg cs w1) [0 ..< length cs]" .
  show ?case
    using e Cons.IH [of "rs @ [r]" w1]
    by (simp only: executeReadonlyCalls.simps m worldAfterCalls_Cons s) simp
qed

lemma loopState_agentLoop:
  "loopState d u cfg rs0 w0 n = Some (rs, w) \<Longrightarrow>
     \<exists>s. agentLoop d u cfg k 0 rs0 s0 w0 = agentLoop d u cfg k n rs s w"
proof (induction n arbitrary: rs w)
  case 0
  then show ?case by auto
next
  case (Suc n)
  from Suc.prems obtain rs1 w1 where st: "loopState d u cfg rs0 w0 n = Some (rs1, w1)"
    by (auto split: option.splits)
  from Suc.IH [OF st] obtain s1 where a: "agentLoop d u cfg k 0 rs0 s0 w0 = agentLoop d u cfg k n rs1 s1 w1"
    by blast
  from Suc.prems st have lt: "n < MAX_ITERATIONS" by (auto split: if_splits)
  from Suc.prems st lt obtain p w2 where pl: "planWithLm d u cfg rs1 w1 = (Inr p, w2)"
    and nm: "filter (\<lambda>c. isMutating (tool c)) (toolCalls p) = []" and nd: "\<not> isDone p"
    and ar: "afterReadonly d cfg p rs1 w2 = (rs, w)"
    by (auto split: prod.splits sum.splits if_splits)
  from ar have ex: "executeReadonlyCalls d (filter (\<lambda>c. \<not> isMutating (tool c)) (toolCalls p)) cfg rs1 w2 = (rs, w)"
    by (simp add: afterReadonly_def)
  from agentLoop_continue [OF lt pl nm nd ex, of k s1] a show ?case by auto
qed

lemma loopState_readOnly:
  "loopState d u cfg rs0 w0 n = Some (rs, w) \<Longrightarrow> logExtends readOnly w0 w"
proof (induction n arbitrary: rs w)
  case 0
  then show ?case by auto
next
  case (Suc n)
  from Suc.prems obtain rs1 w1 where st: "loopState d u cfg rs0 w0 n = Some (rs1, w1)"
    by (auto split: option.splits)
  from Suc.prems st have lt: "n < MAX_ITERATIONS" by (auto split: if_splits)
  from Suc.prems st lt obtain p w2 where pl: "planWithLm d u cfg rs1 w1 = (Inr p, w2)"
    and ar: "afterReadonly d cfg p rs1 w2 = (rs, w)"
    by (auto split: prod.splits sum.splits if_splits)
  from ar have ex: "executeReadonlyCalls d (filter (\<lambda>c. \<not> isMutating (tool c)) (toolCalls p)) cfg rs1 w2 = (rs, w)"
    by (simp add: afterReadonly_def)
  from pl have 1: "invoked w2 = invoked w1" by (auto dest!: planWithLm_world)
  from exec_filtered_readOnly [OF ex] have 2: "logExtends readOnly w2 w" by (simp add: onlyInvokes_def)
  from 1 2 have "logExtends readOnly w1 w" by (simp add: logExtends_def)
  with Suc.IH [OF st] show ?case by (rule logExtends_trans)
qed

section \<open>The confirming turn\<close>







lemma worldAfterCalls_only: "onlyInvokes anyApi w (worldAfterCalls d cfg calls w)"
  using executeReadonlyCalls_only [of w d calls cfg "[]"] by (simp add: executeReadonlyCalls_fold)


section \<open>Claims about the orchestration loop\<close>






lemma handleChatRequest_unmatched:
  assumes "pendingBySession w k = Some pa" "\<not> affirmative (trim prompt)" "\<not> negative (trim prompt)"
    "trim prompt \<noteq> []" "kubeConfigError d = None"
  shows "handleChatRequest d cfg k prompt w = runAgentLoop d (trim prompt) cfg k [] w"
  using assms by (simp add: handleChatRequest_def handlePendingAction_def Let_def)

text \<open>
  Claim C5 (as amended). For every session with a stored \<open>PendingAction\<close>, a turn whose
  text is not empty and matches neither the affirmative nor the negative pattern runs a
  fresh bounded planning loop over the new text. The stored \<open>PendingAction\<close> is not
  removed: at the end of the turn the session holds either the same \<open>PendingAction\<close> or
  a new one that this loop has queued for the new text, made of mutating calls.
\<close>

theorem unmatched_reply_keeps_pending_action:
  "pendingBySession w k = Some pa \<and> \<not> affirmative (trim prompt) \<and> \<not> negative (trim prompt) \<and>
   trim prompt \<noteq> [] \<and> kubeConfigError d = None \<longrightarrow>
     handleChatRequest d cfg k prompt w = runAgentLoop d (trim prompt) cfg k [] w
     \<and> (pendingBySession (snd (handleChatRequest d cfg k prompt w)) k = Some pa
        \<or> (\<exists>pa'. pendingBySession (snd (handleChatRequest d cfg k prompt w)) k = Some pa'
                  \<and> originalUserText pa' = trim prompt
                  \<and> pendingToolCalls pa' \<noteq> []
                  \<and> list_all (\<lambda>c. isMutating (tool c)) (pendingToolCalls pa')))"
proof
  assume h: "pendingBySession w k = Some pa \<and> \<not> affirmative (trim prompt) \<and> \<not> negative (trim prompt) \<and>
   trim prompt \<noteq> [] \<and> kubeConfigError d = None"
  then have e: "handleChatRequest d cfg k prompt w = runAgentLoop d (trim prompt) cfg k [] w"
    using handleChatRequest_unmatched [of w k pa prompt d cfg] by blast
  from runAgentLoop_pending [of d "trim prompt" cfg k "[]" w] h
  have "pendingBySession (snd (runAgentLoop d (trim prompt) cfg k [] w)) k = Some pa
        \<or> (\<exists>pa'. pendingBySession (snd (runAgentLoop d (trim prompt) cfg k [] w)) k = Some pa'
                  \<and> originalUserText pa' = trim prompt
                  \<and> pendingToolCalls pa' \<noteq> []
                  \<and> list_all (\<lambda>c. isMutating (tool c)) (pendingToolCalls pa'))"
    by auto
  with e show "handleChatRequest d cfg k prompt w = runAgentLoop d (trim prompt) cfg k [] w
     \<and> (pendingBySession (snd (handleChatRequest d cfg k prompt w)) k = Some pa
        \<or> (\<exists>pa'. pendingBySession (snd (handleChatRequest d cfg k prompt w)) k = Some pa'
                  \<and> originalUserText pa' = trim prompt
                  \<and> pendingToolCalls pa' \<noteq> []
                  \<and> list_all (\<lambda>c. isMutating (tool c)) (pendingToolCalls pa')))"
    by simp
qed

text \<open>The theorem on a stored \<^verbatim>\<open>createPod\<close> action and the reply \<open>how are you\<close>: the action
  is still stored after the turn.\<close>

theorem unmatched_reply_keeps_pending_action_witness:
  "pendingBySession pendingWorld ''s'' = Some nginxPending
   \<and> \<not> affirmative (trim ''how are you'') \<and> \<not> negative (trim ''how are you'')
   \<and> trim ''how are you'' \<noteq> []
   \<and> kubeConfigError (sampleDeps talkative nothingToDo) = None
   \<and> handleChatRequest (sampleDeps talkative nothingToDo) sampleConfig ''s'' ''how are you'' pendingWorld
       = runAgentLoop (sampleDeps talkative nothingToDo) (trim ''how are you'') sampleConfig ''s'' [] pendingWorld
   \<and> map_option pendingToolCalls
        (pendingBySession (snd (handleChatRequest (sampleDeps talkative nothingToDo) sampleConfig ''s''
                                  ''how are you'' pendingWorld)) ''s'') = Some [nginxPod]"
proof -
  let ?d = "sampleDeps talkative nothingToDo"
  have h1: "pendingBySession pendingWorld ''s'' = Some nginxPending" by (simp add: pendingWorld_def)
  have h2: "\<not> affirmative (trim ''how are you'')" by code_simp
  have h3: "\<not> negative (trim ''how are you'')" by code_simp
  have h4: "trim ''how are you'' \<noteq> []" by code_simp
  have h5: "kubeConfigError ?d = None" by (simp add: sampleDeps_def)
  from unmatched_reply_keeps_pending_action
         [where w=pendingWorld and k="''s''" and pa=nginxPending and prompt="''how are you''"
            and d="?d" and cfg=sampleConfig]
       h1 h2 h3 h4 h5
  have c1: "handleChatRequest ?d sampleConfig ''s'' ''how are you'' pendingWorld
       = runAgentLoop ?d (trim ''how are you'') sampleConfig ''s'' [] pendingWorld"
    by blast
  have c2: "map_option pendingToolCalls
        (pendingBySession (snd (handleChatRequest ?d sampleConfig ''s'' ''how are you'' pendingWorld)) ''s'')
        = Some [nginxPod]"
    by code_simp
  from h1 h2 h3 h4 h5 c1 c2 show ?thesis by blast
qed

text \<open>
  Claim C5 as stated says that the \<open>PendingAction\<close> is abandoned and that a later
  affirmative turn does not execute the old queued calls. In this conversation the
  request \<open>deploy nginx\<close> queues a \<^verbatim>\<open>createPod\<close> call; the reply \<open>how are you\<close> matches
  neither pattern and is planned afresh, with nothing to do; the call is still stored
  after it, and the following \<open>confirm\<close> creates the pod.
\<close>

theorem abandoned_pending_action_counterexample:
  "map_option pendingToolCalls
     (pendingBySession
        (conversation (sampleDeps silentFirst nothingToDo) sampleConfig ''s''
           [''deploy nginx'', ''how are you''] emptyWorld) ''s'') = Some [nginxPod]
   \<and> map fst (invoked (conversation (sampleDeps silentFirst nothingToDo) sampleConfig ''s''
                         [''deploy nginx'', ''how are you''] emptyWorld)) = [ReadNamespace]
   \<and> map fst (invoked (conversation (sampleDeps silentFirst nothingToDo) sampleConfig ''s''
                         [''deploy nginx'', ''how are you'', ''confirm''] emptyWorld))
       = [ReadNamespace, CreateNamespacedPod]"
  by code_simp

section \<open>The number of planner calls\<close>

lemma loopState_bound:
  "loopState d u cfg rs0 w0 n = Some (rs, w) \<Longrightarrow> n \<le> MAX_ITERATIONS \<and> planCalls w = planCalls w0 + n"
proof (induction n arbitrary: rs w)
  case 0
  then show ?case by auto
next
  case (Suc n)
  from Suc.prems obtain rs1 w1 where st: "loopState d u cfg rs0 w0 n = Some (rs1, w1)"
    by (auto split: option.splits)
  from Suc.prems st have lt: "n < MAX_ITERATIONS" by (auto split: if_splits)
  from Suc.prems st lt obtain p w2 where pl: "planWithLm d u cfg rs1 w1 = (Inr p, w2)"
    and ar: "afterReadonly d cfg p rs1 w2 = (rs, w)"
    by (auto split: prod.splits sum.splits if_splits)
  from ar have ex: "executeReadonlyCalls d (filter (\<lambda>c. \<not> isMutating (tool c)) (toolCalls p)) cfg rs1 w2 = (rs, w)"
    by (simp add: afterReadonly_def)
  from pl have 1: "planCalls w2 = planCalls w1 + 1" by (auto dest!: planWithLm_world)
  from exec_filtered_readOnly [OF ex] have 2: "planCalls w = planCalls w2" by (simp add: onlyInvokes_def)
  from Suc.IH [OF st] 1 2 lt show ?case by simp
qed

lemma planWithLm_planCalls: "planCalls (snd (planWithLm d u cfg rs w)) = planCalls w + 1"
  by (cases "planWithLm d u cfg rs w") (auto dest!: planWithLm_world)

lemma loopState_SucD:
  assumes "loopState d u cfg rs0 w0 (Suc n) = Some (rs, w)"
  obtains rs1 w1 p w2 where "loopState d u cfg rs0 w0 n = Some (rs1, w1)" "n < MAX_ITERATIONS"
    "planWithLm d u cfg rs1 w1 = (Inr p, w2)" "filter (\<lambda>c. isMutating (tool c)) (toolCalls p) = []"
    "\<not> isDone p" "afterReadonly d cfg p rs1 w2 = (rs, w)"
  using assms by (auto split: option.splits prod.splits sum.splits if_splits)

lemma loopState_last:
  assumes s9: "loopState d u cfg rs0 w0 n = Some (rs9, w9)"
    and pl: "fst (planWithLm d u cfg rs9 w9) = Inr p"
    and s10: "loopState d u cfg rs0 w0 (Suc n) = Some (rs, w)"
    and m: "Suc n = MAX_ITERATIONS"
  shows "runAgentLoop d u cfg k rs0 w0 =
           turnOf (formatWithLm d u (summary p) rs (w\<lparr>stream := stream w @ [MaxIterationsNotice]\<rparr>))"
proof -
  from s10 obtain rs1 w1 p1 w2 where st: "loopState d u cfg rs0 w0 n = Some (rs1, w1)"
    and lt: "n < MAX_ITERATIONS" and plw: "planWithLm d u cfg rs1 w1 = (Inr p1, w2)"
    and nm: "filter (\<lambda>c. isMutating (tool c)) (toolCalls p1) = []" and nd: "\<not> isDone p1"
    and ar: "afterReadonly d cfg p1 rs1 w2 = (rs, w)"
    by (rule loopState_SucD)
  from st s9 have e: "rs1 = rs9" "w1 = w9" by simp_all
  with plw pl have p: "p1 = p" by simp
  from ar have ex: "executeReadonlyCalls d (filter (\<lambda>c. \<not> isMutating (tool c)) (toolCalls p)) cfg rs9 w2 = (rs, w)"
    by (simp add: afterReadonly_def e p)
  from loopState_agentLoop [OF s9, of k "[]"] obtain s where
    a: "agentLoop d u cfg k 0 rs0 [] w0 = agentLoop d u cfg k n rs9 s w9" by blast
  have "agentLoop d u cfg k n rs9 s w9 = agentLoop d u cfg k (n + 1) rs (summary p) w"
    using agentLoop_continue [OF lt plw [unfolded e p] nm [unfolded p] nd [unfolded p] ex] .
  also have "\<dots> = (Inr (LoopEnd MAX_ITERATIONS rs (summary p)), w)"
    using agentLoop_stop [of MAX_ITERATIONS d u cfg k rs "summary p" w] m by simp
  finally have b: "agentLoop d u cfg k 0 rs0 [] w0 = (Inr (LoopEnd MAX_ITERATIONS rs (summary p)), w)"
    using a by simp
  show ?thesis
    by (simp add: runAgentLoop_def b turnOf_def split: prod.splits sum.splits)
qed

lemma handlePendingAction_planCalls:
  "planCalls (snd (handlePendingAction d t pa k cfg w)) \<le> planCalls w + MAX_ITERATIONS"
proof (cases "affirmative t")
  case False
  then show ?thesis by (simp add: handlePendingAction_def)
next
  case True
  obtain results w1 where ex:
    "executeReadonlyCalls d (pendingToolCalls pa) cfg (priorResults pa)
        (w\<lparr>stream := stream w @ [ConfirmedNotice]\<rparr>) = (results, w1)"
    by (cases "executeReadonlyCalls d (pendingToolCalls pa) cfg (priorResults pa)
        (w\<lparr>stream := stream w @ [ConfirmedNotice]\<rparr>)")
  from executeReadonlyCalls_only [of "w\<lparr>stream := stream w @ [ConfirmedNotice]\<rparr>" d "pendingToolCalls pa" cfg
         "priorResults pa"] ex
  have 1: "planCalls w1 = planCalls w" by (simp add: onlyInvokes_def)
  define w2 where "w2 = w1\<lparr>pendingBySession := (pendingBySession w1)(k := None)\<rparr>"
  have 2: "planCalls w2 = planCalls w" using 1 by (simp add: w2_def)
  show ?thesis
  proof (cases "isDone (plan pa)")
    case d: True
    obtain r w3 where fw: "formatWithLm d (originalUserText pa) (summary (plan pa)) results w2 = (r, w3)"
      by (cases "formatWithLm d (originalUserText pa) (summary (plan pa)) results w2")
    from formatWithLm_world [OF fw] 2 have "planCalls w3 = planCalls w" by simp
    then show ?thesis
      using True d ex fw by (simp add: handlePendingAction_def w2_def [symmetric] split: sum.splits)
  next
    case nd: False
    obtain r w3 where ra: "runAgentLoop d (originalUserText pa) cfg k results w2 = (r, w3)"
      by (cases "runAgentLoop d (originalUserText pa) cfg k results w2")
    from runAgentLoop_planCalls [of d "originalUserText pa" cfg k results w2] ra 2
    have "planCalls w3 \<le> planCalls w + MAX_ITERATIONS" by simp
    then show ?thesis
      using True nd ex ra by (simp add: handlePendingAction_def w2_def [symmetric] split: sum.splits)
  qed
qed

lemma handlePendingAction_unhandled:
  "handlePendingAction d t pa k cfg w = (Inr False, w1) \<Longrightarrow> w1 = w"
  by (auto simp: handlePendingAction_def Let_def split: if_splits prod.splits sum.splits)

lemma handleChatRequest_planCalls:
  "planCalls (snd (handleChatRequest d cfg k prompt w)) \<le> planCalls w + MAX_ITERATIONS"
proof (cases "trim prompt = [] \<or> kubeConfigError d \<noteq> None")
  case True
  then show ?thesis by (auto simp: handleChatRequest_def Let_def)
next
  case False
  show ?thesis
  proof (cases "pendingBySession w k")
    case None
    with False show ?thesis
      by (simp add: handleChatRequest_def Let_def runAgentLoop_planCalls)
  next
    case (Some pa)
    obtain r w1 where hp: "handlePendingAction d (trim prompt) pa k cfg w = (r, w1)"
      by (cases "handlePendingAction d (trim prompt) pa k cfg w")
    from handlePendingAction_planCalls [of d "trim prompt" pa k cfg w] hp
    have 1: "planCalls w1 \<le> planCalls w + MAX_ITERATIONS" by simp
    show ?thesis
    proof (cases r)
      case (Inl e)
      with False Some hp 1 show ?thesis by (simp add: handleChatRequest_def Let_def)
    next
      case (Inr b)
      show ?thesis
      proof (cases b)
        case True
        with False Some hp 1 Inr show ?thesis by (simp add: handleChatRequest_def Let_def)
      next
        case b: False
        with hp Inr have "w1 = w" by (auto dest: handlePendingAction_unhandled)
        with False Some hp Inr b show ?thesis
          by (simp add: handleChatRequest_def Let_def runAgentLoop_planCalls)
      qed
    qed
  qed
qed

lemma planWithLm_talkative:
  "planWithLm (sampleDeps talkative p) u cfg rs w =
     (Inr p, w\<lparr>lmUses := lmUses w + 1, planCalls := planCalls w + 1\<rparr>)"
  by (simp add: planWithLm_def sampleDeps_def talkative_def decodePlan_def bindR_def Let_def)

lemma executeTool_listNamespaces_accepting:
  "executeTool acceptingBackend idSummarizer (callOf ''listNamespaces'' []) ns imgs m w =
     (lookResult, w\<lparr>cluster := Suc (cluster w), invoked := invoked w @ [(ListNamespace, [])]\<rparr>)"
  by (simp add: executeTool_def toolCase_def case_listNamespaces_def invoke_def bindE_def liftE_def
        bindR_def acceptingBackend_def sampleResponse_def getProp_def arrayMap_def okResult_def
        plainResult_def callOf_def lookResult_def)

lemma afterReadonly_lookAgain:
  "afterReadonly (sampleDeps talkative lookAgain) sampleConfig lookAgain (replicate n lookResult)
     ((lookedWorld n)\<lparr>lmUses := Suc (lmUses (lookedWorld n)), planCalls := Suc (planCalls (lookedWorld n))\<rparr>)
   = (replicate (Suc n) lookResult, lookedWorld (Suc n))"
proof -
  have f: "filter (\<lambda>c. \<not> isMutating (tool c)) (toolCalls lookAgain) = [callOf ''listNamespaces'' []]"
    by (simp add: lookAgain_def planOf_def callOf_def isMutating_def)
  have b: "backend (sampleDeps talkative lookAgain) = acceptingBackend"
    "summarizeK8sList (sampleDeps talkative lookAgain) = idSummarizer"
    by (simp_all add: sampleDeps_def)
  show ?thesis
    unfolding afterReadonly_def f
    by (simp add: b executeTool_listNamespaces_accepting lookedWorld_def replicate_append_same)
qed

lemma loopState_lookAgain:
  "n \<le> MAX_ITERATIONS \<Longrightarrow>
   loopState (sampleDeps talkative lookAgain) u sampleConfig [] emptyWorld n
     = Some (replicate n lookResult, lookedWorld n)"
proof (induction n)
  case 0
  show ?case by (simp add: lookedWorld_def emptyWorld_def)
next
  case (Suc n)
  then have st: "loopState (sampleDeps talkative lookAgain) u sampleConfig [] emptyWorld n
     = Some (replicate n lookResult, lookedWorld n)" and lt: "n < MAX_ITERATIONS" by simp_all
  have f: "filter (\<lambda>c. isMutating (tool c)) (toolCalls lookAgain) = []" "\<not> isDone lookAgain"
    by (simp_all add: lookAgain_def planOf_def callOf_def isMutating_def)
  show ?case
    using lt f by (simp add: st planWithLm_talkative afterReadonly_lookAgain del: replicate_Suc)
qed

text \<open>
  Claim C8. The bound of the planning loop is ten. A planning loop, and so a turn, calls
  the planner at most ten times, whatever the oracle answers. The loop counts its
  iterations from zero and each iteration calls the planner exactly once: at the start of
  iteration \<open>n\<close> (counted from zero) \<open>n \<le> 10\<close> holds and the planner has been called \<open>n\<close>
  times, and the call of that iteration is one more. When ten iterations have run and
  none of them was left by a done plan, a suspension or a planning failure, the loop
  ends: the maximum-iterations notice is written and the accumulated results are
  formatted, under the summary of the tenth plan. A loop that ends for formatting after
  \<open>n\<close> iterations has called the planner \<open>n\<close> times, \<open>n \<le> 10\<close>.
\<close>

theorem planning_loop_bounded:
  "MAX_ITERATIONS = 10
   \<and> planCalls (snd (runAgentLoop d u cfg k init w0)) \<le> planCalls w0 + 10
   \<and> planCalls (snd (handleChatRequest d cfg k prompt v)) \<le> planCalls v + 10
   \<and> (loopState d u cfg init w0 n = Some (rs, w) \<longrightarrow>
        n \<le> 10 \<and> planCalls w = planCalls w0 + n \<and>
        planCalls (snd (planWithLm d u cfg rs w)) = planCalls w + 1)
   \<and> (loopState d u cfg init w0 9 = Some (rs9, w9) \<and> fst (planWithLm d u cfg rs9 w9) = Inr p \<and>
      loopState d u cfg init w0 10 = Some (rs10, w10) \<longrightarrow>
        runAgentLoop d u cfg k init w0 =
          turnOf (formatWithLm d u (summary p) rs10 (w10\<lparr>stream := stream w10 @ [MaxIterationsNotice]\<rparr>)))
   \<and> (fst (agentLoop d u cfg k 0 init [] w0) = Inr (LoopEnd m rs' s') \<longrightarrow>
        m \<le> 10 \<and> planCalls (snd (agentLoop d u cfg k 0 init [] w0)) = planCalls w0 + m)"
proof (intro conjI impI)
  show "MAX_ITERATIONS = 10" by (simp add: MAX_ITERATIONS_def)
  show "planCalls (snd (runAgentLoop d u cfg k init w0)) \<le> planCalls w0 + 10"
    using runAgentLoop_planCalls [of d u cfg k init w0] by (simp add: MAX_ITERATIONS_def)
  show "planCalls (snd (handleChatRequest d cfg k prompt v)) \<le> planCalls v + 10"
    using handleChatRequest_planCalls [of d cfg k prompt v] by (simp add: MAX_ITERATIONS_def)
next
  assume st: "loopState d u cfg init w0 n = Some (rs, w)"
  from loopState_bound [OF st] show "n \<le> 10" by (simp add: MAX_ITERATIONS_def)
  from loopState_bound [OF st] show "planCalls w = planCalls w0 + n" by simp
  show "planCalls (snd (planWithLm d u cfg rs w)) = planCalls w + 1" by (rule planWithLm_planCalls)
next
  assume h: "loopState d u cfg init w0 9 = Some (rs9, w9) \<and> fst (planWithLm d u cfg rs9 w9) = Inr p \<and>
      loopState d u cfg init w0 10 = Some (rs10, w10)"
  have e: "(10::nat) = Suc 9" by simp
  from h have a: "loopState d u cfg init w0 9 = Some (rs9, w9)"
    and b: "fst (planWithLm d u cfg rs9 w9) = Inr p"
    and c: "loopState d u cfg init w0 (Suc 9) = Some (rs10, w10)"
    by (simp_all only: e [symmetric])
  have m: "Suc 9 = MAX_ITERATIONS" by (simp add: MAX_ITERATIONS_def)
  show "runAgentLoop d u cfg k init w0 =
          turnOf (formatWithLm d u (summary p) rs10 (w10\<lparr>stream := stream w10 @ [MaxIterationsNotice]\<rparr>))"
    by (rule loopState_last [OF a b c m])
next
  assume h: "fst (agentLoop d u cfg k 0 init [] w0) = Inr (LoopEnd m rs' s')"
  from agentLoop_planCalls [of d u cfg k 0 init "[]" w0] h
  show "m \<le> 10" by (simp add: MAX_ITERATIONS_def)
  from agentLoop_planCalls [of d u cfg k 0 init "[]" w0] h
  show "planCalls (snd (agentLoop d u cfg k 0 init [] w0)) = planCalls w0 + m" by simp
qed

text \<open>The theorem on an oracle whose every plan lists the namespaces and is not done: the
  loop runs its ten iterations, each with one planner call and one invocation, then
  writes the notice and formats the ten results.\<close>

theorem planning_loop_bounded_witness:
  "loopState (sampleDeps talkative lookAgain) ''look'' sampleConfig [] emptyWorld 9
       = Some (replicate 9 lookResult, lookedWorld 9)
   \<and> fst (planWithLm (sampleDeps talkative lookAgain) ''look'' sampleConfig (replicate 9 lookResult) (lookedWorld 9))
       = Inr lookAgain
   \<and> loopState (sampleDeps talkative lookAgain) ''look'' sampleConfig [] emptyWorld 10
       = Some (replicate 10 lookResult, lookedWorld 10)
   \<and> planCalls (lookedWorld 10) = planCalls emptyWorld + 10
   \<and> planCalls (snd (planWithLm (sampleDeps talkative lookAgain) ''look'' sampleConfig (replicate 9 lookResult)
                       (lookedWorld 9))) = 10
   \<and> runAgentLoop (sampleDeps talkative lookAgain) ''look'' sampleConfig ''s'' [] emptyWorld
       = (Inr (), (lookedWorld 10)\<lparr>stream := [MaxIterationsNotice, Chunk ''ok''], lmUses := 11\<rparr>)
   \<and> fst (agentLoop (sampleDeps talkative nothingToDo) ''look'' sampleConfig ''s'' 0 [] [] emptyWorld)
       = Inr (LoopEnd 1 [] ''Nothing to do'')
   \<and> planCalls (snd (agentLoop (sampleDeps talkative nothingToDo) ''look'' sampleConfig ''s'' 0 [] [] emptyWorld))
       = planCalls emptyWorld + 1"
proof -
  let ?d = "sampleDeps talkative lookAgain"
  have m: "(9::nat) \<le> MAX_ITERATIONS" "(10::nat) \<le> MAX_ITERATIONS" by (simp_all add: MAX_ITERATIONS_def)
  have s9: "loopState ?d ''look'' sampleConfig [] emptyWorld 9 = Some (replicate 9 lookResult, lookedWorld 9)"
    by (rule loopState_lookAgain [OF m(1)])
  have s10: "loopState ?d ''look'' sampleConfig [] emptyWorld 10 = Some (replicate 10 lookResult, lookedWorld 10)"
    by (rule loopState_lookAgain [OF m(2)])
  have pl: "fst (planWithLm ?d ''look'' sampleConfig (replicate 9 lookResult) (lookedWorld 9)) = Inr lookAgain"
    by (simp add: planWithLm_talkative)
  note t = planning_loop_bounded
             [where d="?d" and u="''look''" and cfg=sampleConfig and init="[]" and ?w0.0=emptyWorld
                and k="''s''"]
  note c = t [where n=9 and rs="replicate 9 lookResult" and w="lookedWorld 9",
              THEN conjunct2, THEN conjunct2, THEN conjunct2, THEN conjunct1, THEN mp, OF s9]
  have c1: "planCalls (snd (planWithLm ?d ''look'' sampleConfig (replicate 9 lookResult) (lookedWorld 9))) = 10"
    using c by (simp add: lookedWorld_def)
  note c' = t [where n=10 and rs="replicate 10 lookResult" and w="lookedWorld 10",
              THEN conjunct2, THEN conjunct2, THEN conjunct2, THEN conjunct1, THEN mp, OF s10]
  have c2: "planCalls (lookedWorld 10) = planCalls emptyWorld + 10"
    using c' by (elim conjE)
  note e = t [where ?rs9.0="replicate 9 lookResult" and ?w9.0="lookedWorld 9" and p=lookAgain
                and ?rs10.0="replicate 10 lookResult" and ?w10.0="lookedWorld 10",
              THEN conjunct2, THEN conjunct2, THEN conjunct2, THEN conjunct2, THEN conjunct1, THEN mp,
              OF conjI [OF s9 conjI [OF pl s10]]]
  have c3: "runAgentLoop ?d ''look'' sampleConfig ''s'' [] emptyWorld
       = (Inr (), (lookedWorld 10)\<lparr>stream := [MaxIterationsNotice, Chunk ''ok''], lmUses := 11\<rparr>)"
    by (subst e) (simp add: turnOf_def formatWithLm_def sampleDeps_def talkative_def lookedWorld_def)
  have h: "fst (agentLoop (sampleDeps talkative nothingToDo) ''look'' sampleConfig ''s'' 0 [] [] emptyWorld)
       = Inr (LoopEnd 1 [] ''Nothing to do'')" by code_simp
  note f = planning_loop_bounded
             [where d="sampleDeps talkative nothingToDo" and u="''look''" and cfg=sampleConfig and init="[]"
                and ?w0.0=emptyWorld and k="''s''" and m=1 and rs'="[]" and s'="''Nothing to do''",
              THEN conjunct2, THEN conjunct2, THEN conjunct2, THEN conjunct2, THEN conjunct2, THEN mp, OF h]
  have c4: "planCalls (snd (agentLoop (sampleDeps talkative nothingToDo) ''look'' sampleConfig ''s'' 0 [] [] emptyWorld))
       = planCalls emptyWorld + 1"
    using f by (elim conjE)
  show ?thesis by (intro conjI s9 pl s10 c2 c1 c3 h c4)
qed

section \<open>The formatter without an oracle\<close>

text \<open>
  Claim C7, evaluated on the code. When the language-model API is missing, or has no model
  of the requested family, \<^verbatim>\<open>formatWithLm\<close> returns the raw dump of the results as its
  value and writes nothing to the response stream, whatever the results are. Both callers
  await \<^verbatim>\<open>formatWithLm\<close> and drop its value, so the dump never reaches the user: a request
  that the fallback planner answers by listing the namespaces, with the API gone when the
  results are to be formatted, ends normally with the namespaces listed and an empty
  response stream; and a confirmed action whose results are to be formatted without a
  model ends normally after creating the pod with nothing in the stream but the
  confirmation notice.
\<close>

theorem formatter_fallback_writes_nothing:
  "formatWithLm (d\<lparr>lm := (\<lambda>n. LmMissing)\<rparr>) u s rs w = (Inr (RawDump rs), w\<lparr>lmUses := lmUses w + 1\<rparr>)
   \<and> formatWithLm (d\<lparr>lm := (\<lambda>n. NoModel)\<rparr>) u s rs w = (Inr (RawDump rs), w\<lparr>lmUses := lmUses w + 1\<rparr>)
   \<and> stream (snd (formatWithLm (d\<lparr>lm := (\<lambda>n. LmMissing)\<rparr>) u s rs w)) = stream w
   \<and> stream (snd (formatWithLm (d\<lparr>lm := (\<lambda>n. NoModel)\<rparr>) u s rs w)) = stream w
   \<and> fst (handleChatRequest (sampleDeps silentThenMissing nothingToDo) sampleConfig ''s''
             ''What namespaces exist?'' emptyWorld) = Inr ()
   \<and> invoked (snd (handleChatRequest (sampleDeps silentThenMissing nothingToDo) sampleConfig ''s''
                      ''What namespaces exist?'' emptyWorld)) = [(ListNamespace, [])]
   \<and> pendingBySession (snd (handleChatRequest (sampleDeps silentThenMissing nothingToDo) sampleConfig ''s''
                      ''What namespaces exist?'' emptyWorld)) ''s'' = None
   \<and> stream (snd (handleChatRequest (sampleDeps silentThenMissing nothingToDo) sampleConfig ''s''
                     ''What namespaces exist?'' emptyWorld)) = []
   \<and> fst (handleChatRequest (sampleDeps (\<lambda>n. NoModel) nothingToDo) sampleConfig ''s'' ''confirm'' pendingWorld)
       = Inr ()
   \<and> map fst (invoked (snd (handleChatRequest (sampleDeps (\<lambda>n. NoModel) nothingToDo) sampleConfig ''s''
                               ''confirm'' pendingWorld))) = [CreateNamespacedPod]
   \<and> stream (snd (handleChatRequest (sampleDeps (\<lambda>n. NoModel) nothingToDo) sampleConfig ''s'' ''confirm''
                     pendingWorld)) = [ConfirmedNotice]"
proof (intro conjI)
  show "formatWithLm (d\<lparr>lm := (\<lambda>n. LmMissing)\<rparr>) u s rs w = (Inr (RawDump rs), w\<lparr>lmUses := lmUses w + 1\<rparr>)"
    by (simp add: formatWithLm_def)
  show "formatWithLm (d\<lparr>lm := (\<lambda>n. NoModel)\<rparr>) u s rs w = (Inr (RawDump rs), w\<lparr>lmUses := lmUses w + 1\<rparr>)"
    by (simp add: formatWithLm_def)
  show "stream (snd (formatWithLm (d\<lparr>lm := (\<lambda>n. LmMissing)\<rparr>) u s rs w)) = stream w"
    by (simp add: formatWithLm_def)
  show "stream (snd (formatWithLm (d\<lparr>lm := (\<lambda>n. NoModel)\<rparr>) u s rs w)) = stream w"
    by (simp add: formatWithLm_def)
  show "fst (handleChatRequest (sampleDeps silentThenMissing nothingToDo) sampleConfig ''s''
             ''What namespaces exist?'' emptyWorld) = Inr ()" by code_simp
  show "invoked (snd (handleChatRequest (sampleDeps silentThenMissing nothingToDo) sampleConfig ''s''
                      ''What namespaces exist?'' emptyWorld)) = [(ListNamespace, [])]" by code_simp
  show "pendingBySession (snd (handleChatRequest (sampleDeps silentThenMissing nothingToDo) sampleConfig ''s''
                      ''What namespaces exist?'' emptyWorld)) ''s'' = None" by code_simp
  show "stream (snd (handleChatRequest (sampleDeps silentThenMissing nothingToDo) sampleConfig ''s''
                     ''What namespaces exist?'' emptyWorld)) = []" by code_simp
  show "fst (handleChatRequest (sampleDeps (\<lambda>n. NoModel) nothingToDo) sampleConfig ''s'' ''confirm'' pendingWorld)
       = Inr ()" by code_simp
  show "map fst (invoked (snd (handleChatRequest (sampleDeps (\<lambda>n. NoModel) nothingToDo) sampleConfig ''s''
                               ''confirm'' pendingWorld))) = [CreateNamespacedPod]" by code_simp
  show "stream (snd (handleChatRequest (sampleDeps (\<lambda>n. NoModel) nothingToDo) sampleConfig ''s'' ''confirm''
                     pendingWorld)) = [ConfirmedNotice]" by code_simp
qed

end
